theory Spec2Isabelle
  imports Complex_Main
begin

section \<open>Launch go/no-go decision logic (backend/decide.py)\<close>

text \<open>
  The decision engine reads four dictionaries with fixed keys. Each is a record here, so a
  missing key is excluded by the type. Measured quantities and limits are Python floats
  (or integers that a float holds exactly): a field of type \<open>real\<close> holds the exact value
  of a finite double, so comparisons are exact. NaN, the infinities and integers beyond
  the range of a double are outside the model. The score and the count of close
  approaches are Python integers.
\<close>

subsection \<open>Data model\<close>

record weather =
  wind_speed_kn :: real
  precipitation_mm :: real
  cloud_ceiling_ft :: real
  temperature_c :: real

record space_weather =
  kp_index :: real
  has_solar_storm :: bool

record conjunction =
  has_high_risk :: bool
  close_approaches :: int

record limits =
  max_wind_kn :: real
  max_precipitation_mm :: real
  max_cloud_ceiling_ft :: real
  max_temp_c :: real
  min_temp_c :: real

text \<open>
  Exceptions are values. \<open>ZeroDivisionError\<close> is what Python's \<open>/\<close> raises on a zero
  divisor (for integers and for floats alike); \<open>FetchFailure\<close> stands for any exception
  raised by one of the three awaited data sources.
\<close>

datatype error = ZeroDivisionError | FetchFailure

subsection \<open>Python float arithmetic\<close>

text \<open>
  Every arithmetic operation on floats returns the exact result rounded to a double, and a
  decimal literal such as \<open>0.8\<close> denotes the double nearest to it. The rounding is the
  parameter \<open>rnd\<close> of every function below that computes with floats: \<open>a / b\<close> is
  \<open>rnd (a / b)\<close>, \<open>a * 0.8\<close> is \<open>rnd (a * rnd 0.8)\<close>, \<open>a - 5\<close> is \<open>rnd (a - 5)\<close>.
  Comparisons and integer literals are exact.
\<close>

definition py_truediv :: "(real \<Rightarrow> real) \<Rightarrow> real \<Rightarrow> real \<Rightarrow> error + real" where
  "py_truediv rnd a b = (if b = 0 then Inl ZeroDivisionError else Inr (rnd (a / b)))"

text \<open>
  The rounding of IEEE 754 binary64: to the nearest number with a 53-bit significand, ties
  to the even significand. The exponent range is not bounded here (no overflow, no
  subnormal numbers).
\<close>

definition round_half_even :: "real \<Rightarrow> int" where
  "round_half_even y =
    (let f = \<lfloor>y\<rfloor>; d = y - of_int f
     in if d < 1/2 then f else if d > 1/2 then f + 1 else if even f then f else f + 1)"

definition round_double :: "real \<Rightarrow> real" where
  "round_double x =
    (if x = 0 then 0
     else let e = \<lfloor>log 2 \<bar>x\<bar>\<rfloor>; u = 2 powr (of_int e - 52)
          in of_int (round_half_even (x / u)) * u)"

subsection \<open>Risk scorer\<close>

text \<open>
  \<open>calculate_risk_score\<close>, lines 10-77. The local \<open>score\<close> is rebound at every
  \<open>score += k\<close>; the two divisions come first in their factor groups and raise before
  anything later is evaluated.
\<close>

definition calculate_risk_score ::
  "(real \<Rightarrow> real) \<Rightarrow> weather \<Rightarrow> space_weather \<Rightarrow> conjunction \<Rightarrow> limits \<Rightarrow> error + int" where
  "calculate_risk_score rnd w sw c l =
    (let score = (0::int) in
     case py_truediv rnd (wind_speed_kn w) (max_wind_kn l) of
       Inl e \<Rightarrow> Inl e
     | Inr wind_ratio \<Rightarrow>
    (let score = (if wind_ratio \<ge> 1 then score + 40
                  else if wind_ratio \<ge> rnd 0.8 then score + 20
                  else if wind_ratio \<ge> rnd 0.6 then score + 10
                  else score) in
     case py_truediv rnd (precipitation_mm w) (max_precipitation_mm l) of
       Inl e \<Rightarrow> Inl e
     | Inr precip_ratio \<Rightarrow>
    (let score = (if precip_ratio \<ge> 5 then score + 50
                  else if precip_ratio \<ge> 2 then score + 35
                  else if precip_ratio \<ge> 1 then score + 25
                  else if precip_ratio \<ge> rnd 0.7 then score + 15
                  else score);
         score = (if cloud_ceiling_ft w < 1000 then score + 40
                  else if cloud_ceiling_ft w < 2000 then score + 30
                  else if cloud_ceiling_ft w < 3000 then score + 20
                  else if cloud_ceiling_ft w < max_cloud_ceiling_ft l then score + 10
                  else score);
         temp = temperature_c w;
         score = (if temp > max_temp_c l \<or> temp < min_temp_c l then score + 25
                  else if temp > rnd (max_temp_c l - 5) \<or> temp < rnd (min_temp_c l + 5)
                  then score + 10
                  else score);
         kp = kp_index sw;
         score = (if kp \<ge> 7 then score + 30
                  else if kp \<ge> 5 then score + 15
                  else if kp \<ge> 3 then score + 5
                  else score);
         score = (if has_solar_storm sw then score + 20 else score);
         score = (if has_high_risk c then score + 40
                  else if close_approaches c > 0 then score + 10
                  else score)
     in Inr (min score 100))))"

subsection \<open>Verdict classifier\<close>

text \<open>\<open>determine_verdict\<close>, lines 80-87. The verdict is a Python string.\<close>

definition determine_verdict :: "int \<Rightarrow> string" where
  "determine_verdict risk_score =
    (if risk_score \<ge> 70 then ''NO-GO''
     else if risk_score \<ge> 40 then ''MARGINAL''
     else ''GO'')"

subsection \<open>The band ladders as the specification words them\<close>

text \<open>
  Section 4.1 of the specification describes the score as a sum of flat point additions,
  one per factor group, clamped at 100. The definitions below follow that wording, with
  its decimal thresholds and its ratio \<open>observed/limit\<close> read in float arithmetic; they
  are compared with \<open>calculate_risk_score\<close>, which is the translation of the code.
\<close>

definition spec_wind_points :: "(real \<Rightarrow> real) \<Rightarrow> real \<Rightarrow> int" where
  "spec_wind_points rnd ratio =
    (if ratio \<ge> 1 then 40 else if ratio \<ge> rnd 0.8 then 20
     else if ratio \<ge> rnd 0.6 then 10 else 0)"

definition spec_precip_points :: "(real \<Rightarrow> real) \<Rightarrow> real \<Rightarrow> int" where
  "spec_precip_points rnd ratio =
    (if ratio \<ge> 5 then 50 else if ratio \<ge> 2 then 35 else if ratio \<ge> 1 then 25
     else if ratio \<ge> rnd 0.7 then 15 else 0)"

definition spec_cloud_points :: "real \<Rightarrow> real \<Rightarrow> int" where
  "spec_cloud_points ceiling_ft site_limit =
    (if ceiling_ft < 1000 then 40 else if ceiling_ft < 2000 then 30
     else if ceiling_ft < 3000 then 20 else if ceiling_ft < site_limit then 10 else 0)"

definition spec_temp_points :: "(real \<Rightarrow> real) \<Rightarrow> real \<Rightarrow> real \<Rightarrow> real \<Rightarrow> int" where
  "spec_temp_points rnd temp lo hi =
    (if temp > hi \<or> temp < lo then 25
     else if temp > rnd (hi - 5) \<or> temp < rnd (lo + 5) then 10 else 0)"

definition spec_kp_points :: "real \<Rightarrow> int" where
  "spec_kp_points kp = (if kp \<ge> 7 then 30 else if kp \<ge> 5 then 15 else if kp \<ge> 3 then 5 else 0)"

definition spec_storm_points :: "bool \<Rightarrow> int" where
  "spec_storm_points storm = (if storm then 20 else 0)"

definition spec_conjunction_points :: "bool \<Rightarrow> int \<Rightarrow> int" where
  "spec_conjunction_points high_risk approaches =
    (if high_risk then 40 else if approaches > 0 then 10 else 0)"

definition spec_band_sum ::
  "(real \<Rightarrow> real) \<Rightarrow> weather \<Rightarrow> space_weather \<Rightarrow> conjunction \<Rightarrow> limits \<Rightarrow> int" where
  "spec_band_sum rnd w sw c l =
     spec_wind_points rnd (rnd (wind_speed_kn w / max_wind_kn l))
   + spec_precip_points rnd (rnd (precipitation_mm w / max_precipitation_mm l))
   + spec_cloud_points (cloud_ceiling_ft w) (max_cloud_ceiling_ft l)
   + spec_temp_points rnd (temperature_c w) (min_temp_c l) (max_temp_c l)
   + spec_kp_points (kp_index sw)
   + spec_storm_points (has_solar_storm sw)
   + spec_conjunction_points (has_high_risk c) (close_approaches c)"

subsection \<open>Explanation generator\<close>

text \<open>
  The f-strings render numbers with Python's built-in formatting: \<open>{x:.1f}\<close>,
  \<open>{x:.0f}\<close> and the plain \<open>{x}\<close>. Those renderings belong to the language, not to
  this program; they are taken as parameters.
\<close>

record py_format =
  fmt_1f :: "real \<Rightarrow> string"
  fmt_0f :: "real \<Rightarrow> string"
  fmt_str :: "real \<Rightarrow> string"

text \<open>\<open>sep.join(xs)\<close> on a list of strings.\<close>

fun join :: "string \<Rightarrow> string list \<Rightarrow> string" where
  "join sep [] = []"
| "join sep [x] = x"
| "join sep (x # y # ys) = x @ sep @ join sep (y # ys)"

text \<open>
  The eight issue sentences of lines 102-125. The degree sign is the single character
  U+00B0.
\<close>

definition wind_issue :: "py_format \<Rightarrow> weather \<Rightarrow> limits \<Rightarrow> string" where
  "wind_issue f w l = ''Wind speed '' @ fmt_1f f (wind_speed_kn w)
     @ '' kn approaching limit '' @ fmt_str f (max_wind_kn l) @ '' kn''"

definition precipitation_issue :: "py_format \<Rightarrow> weather \<Rightarrow> limits \<Rightarrow> string" where
  "precipitation_issue f w l = ''Precipitation '' @ fmt_1f f (precipitation_mm w)
     @ '' mm near limit '' @ fmt_str f (max_precipitation_mm l) @ '' mm''"

definition cloud_ceiling_issue :: "py_format \<Rightarrow> weather \<Rightarrow> limits \<Rightarrow> string" where
  "cloud_ceiling_issue f w l = ''Cloud ceiling '' @ fmt_0f f (cloud_ceiling_ft w)
     @ '' ft below limit '' @ fmt_str f (max_cloud_ceiling_ft l) @ '' ft''"

definition upper_temperature_issue :: "py_format \<Rightarrow> weather \<Rightarrow> string" where
  "upper_temperature_issue f w = ''Temperature '' @ fmt_1f f (temperature_c w)
     @ [CHR 0xB0] @ ''C approaching upper limit''"

definition lower_temperature_issue :: "py_format \<Rightarrow> weather \<Rightarrow> string" where
  "lower_temperature_issue f w = ''Temperature '' @ fmt_1f f (temperature_c w)
     @ [CHR 0xB0] @ ''C approaching lower limit''"

definition kp_issue :: "py_format \<Rightarrow> space_weather \<Rightarrow> string" where
  "kp_issue f sw = ''Elevated Kp index at '' @ fmt_0f f (kp_index sw)
     @ '' (geomagnetic storm conditions)''"

definition solar_storm_issue :: string where
  "solar_storm_issue = ''Active solar storm detected''"

definition conjunction_issue :: string where
  "conjunction_issue = ''High debris conjunction risk detected''"

definition explanation_sentinel :: string where
  "explanation_sentinel = ''All parameters within acceptable limits for launch''"

text \<open>
  The list \<open>issues\<close> as it stands at line 127, after the eight conditional appends of
  lines 98-125.
\<close>

definition explanation_issues ::
  "py_format \<Rightarrow> (real \<Rightarrow> real) \<Rightarrow> weather \<Rightarrow> space_weather \<Rightarrow> conjunction \<Rightarrow> limits
     \<Rightarrow> string list" where
  "explanation_issues f rnd w sw c l =
    (let issues = [];
         issues = (if wind_speed_kn w > rnd (max_wind_kn l * rnd 0.8)
                   then issues @ [wind_issue f w l] else issues);
         issues = (if precipitation_mm w > rnd (max_precipitation_mm l * rnd 0.5)
                   then issues @ [precipitation_issue f w l] else issues);
         issues = (if cloud_ceiling_ft w < max_cloud_ceiling_ft l
                   then issues @ [cloud_ceiling_issue f w l] else issues);
         issues = (if temperature_c w > rnd (max_temp_c l - 5)
                   then issues @ [upper_temperature_issue f w] else issues);
         issues = (if temperature_c w < rnd (min_temp_c l + 5)
                   then issues @ [lower_temperature_issue f w] else issues);
         issues = (if kp_index sw \<ge> 5 then issues @ [kp_issue f sw] else issues);
         issues = (if has_solar_storm sw then issues @ [solar_storm_issue] else issues);
         issues = (if has_high_risk c then issues @ [conjunction_issue] else issues)
     in issues)"

text \<open>
  \<open>generate_explanation\<close>, lines 90-130. The parameter \<open>risk_score\<close> is part of the
  signature.
\<close>

definition generate_explanation ::
  "py_format \<Rightarrow> (real \<Rightarrow> real) \<Rightarrow> weather \<Rightarrow> space_weather \<Rightarrow> conjunction \<Rightarrow> limits \<Rightarrow> int
     \<Rightarrow> string" where
  "generate_explanation f rnd w sw c l risk_score =
    (let issues = explanation_issues f rnd w sw c l
     in if issues = [] then explanation_sentinel else join ''; '' issues)"

subsection \<open>Citation generator\<close>

text \<open>The section sign is the single character U+00A7.\<close>

definition cloud_citation :: string where
  "cloud_citation = ''NASA-STD-4010A '' @ [CHR 0xA7] @ ''4.1.8 (Thick Cloud Layers)''"

definition wind_citation :: "py_format \<Rightarrow> limits \<Rightarrow> string" where
  "wind_citation f l = ''Vehicle SOP: Pad Wind Limit '' @ fmt_str f (max_wind_kn l) @ '' kn''"

definition precipitation_citation :: string where
  "precipitation_citation = ''NASA-STD-4010A '' @ [CHR 0xA7] @ ''4.1.10 (Precipitation)''"

definition kp_citation :: string where
  "kp_citation = ''SWPC Kp advisory - Geomagnetic Storm Watch''"

definition cola_citation :: string where
  "cola_citation = ''COLA (Collision Avoidance) Analysis - High Risk''"

definition citation_sentinel :: string where
  "citation_sentinel = ''All parameters nominal''"

text \<open>\<open>get_rule_citations\<close>, lines 133-160.\<close>

definition get_rule_citations ::
  "py_format \<Rightarrow> (real \<Rightarrow> real) \<Rightarrow> weather \<Rightarrow> space_weather \<Rightarrow> conjunction \<Rightarrow> limits
     \<Rightarrow> string list" where
  "get_rule_citations f rnd w sw c l =
    (let citations = [];
         citations = (if cloud_ceiling_ft w < max_cloud_ceiling_ft l
                      then citations @ [cloud_citation] else citations);
         citations = (if wind_speed_kn w > rnd (max_wind_kn l * rnd 0.8)
                      then citations @ [wind_citation f l] else citations);
         citations = (if precipitation_mm w > rnd (max_precipitation_mm l * rnd 0.5)
                      then citations @ [precipitation_citation] else citations);
         citations = (if kp_index sw \<ge> 5 then citations @ [kp_citation] else citations);
         citations = (if has_high_risk c then citations @ [cola_citation] else citations);
         citations = (if citations = [] then citations @ [citation_sentinel] else citations)
     in citations)"

text \<open>
  The conditions tested by the two generators, collected: some issue is appended, some
  citation other than the sentinel is appended.
\<close>

definition explanation_triggered ::
  "(real \<Rightarrow> real) \<Rightarrow> weather \<Rightarrow> space_weather \<Rightarrow> conjunction \<Rightarrow> limits \<Rightarrow> bool" where
  "explanation_triggered rnd w sw c l \<longleftrightarrow>
     wind_speed_kn w > rnd (max_wind_kn l * rnd 0.8)
   \<or> precipitation_mm w > rnd (max_precipitation_mm l * rnd 0.5)
   \<or> cloud_ceiling_ft w < max_cloud_ceiling_ft l
   \<or> temperature_c w > rnd (max_temp_c l - 5)
   \<or> temperature_c w < rnd (min_temp_c l + 5)
   \<or> kp_index sw \<ge> 5
   \<or> has_solar_storm sw
   \<or> has_high_risk c"

definition citation_triggered ::
  "(real \<Rightarrow> real) \<Rightarrow> weather \<Rightarrow> space_weather \<Rightarrow> conjunction \<Rightarrow> limits \<Rightarrow> bool" where
  "citation_triggered rnd w sw c l \<longleftrightarrow>
     cloud_ceiling_ft w < max_cloud_ceiling_ft l
   \<or> wind_speed_kn w > rnd (max_wind_kn l * rnd 0.8)
   \<or> precipitation_mm w > rnd (max_precipitation_mm l * rnd 0.5)
   \<or> kp_index sw \<ge> 5
   \<or> has_high_risk c"

subsection \<open>Decision orchestrator\<close>

text \<open>
  \<open>make_decision\<close> reads the registry \<open>LAUNCH_SITES\<close> and awaits three coroutines of
  other modules. The registry and the three data sources are parameters; a data source
  either returns its record or raises. The decision dictionary is a record whose \<open>data\<close>
  field is \<open>None\<close> when the dictionary has no such key.
\<close>

record site =
  lat :: real
  lon :: real
  limits :: limits

record 'time env =
  LAUNCH_SITES :: "string \<rightharpoonup> site"
  get_weather :: "real \<Rightarrow> real \<Rightarrow> 'time \<Rightarrow> error + weather"
  get_space_weather :: "unit \<Rightarrow> error + space_weather"
  get_conjunction_risk :: "real \<Rightarrow> real \<Rightarrow> 'time \<Rightarrow> error + conjunction"

record snapshots =
  weather :: weather
  space_weather :: space_weather
  conjunction :: conjunction

record decision =
  verdict :: string
  risk_score :: int
  why :: string
  rule_citations :: "string list"
  data :: "snapshots option"

text \<open>
  The order in which the data sources are used is observable, so every call of a source
  and every value it hands back to \<open>make_decision\<close> is logged. \<open>await f(...)\<close> calls
  \<open>f\<close> and suspends \<open>make_decision\<close> until \<open>f\<close> has returned or raised; an exception
  raised by the awaited coroutine leaves \<open>make_decision\<close> at that line.
\<close>

datatype source = Weather | SpaceWeather | Conjunction

datatype event = Issued source | Completed source

definition make_decision ::
  "py_format \<Rightarrow> (real \<Rightarrow> real) \<Rightarrow> 'time env \<Rightarrow> string \<Rightarrow> 'time
     \<Rightarrow> (error + decision) \<times> event list" where
  "make_decision f rnd env site_code launch_time =
    (case LAUNCH_SITES env site_code of
       None \<Rightarrow>
         (Inr \<lparr>verdict = ''ERROR'', risk_score = 100,
               why = ''Unknown launch site: '' @ site_code,
               rule_citations = [], data = None\<rparr>, [])
     | Some st \<Rightarrow>
         (let lim = limits st;
              trace = [Issued Weather] in
          case get_weather env (lat st) (lon st) launch_time of
            Inl e \<Rightarrow> (Inl e, trace)
          | Inr w \<Rightarrow>
         (let trace = trace @ [Completed Weather, Issued SpaceWeather] in
          case get_space_weather env () of
            Inl e \<Rightarrow> (Inl e, trace)
          | Inr sw \<Rightarrow>
         (let trace = trace @ [Completed SpaceWeather, Issued Conjunction] in
          case get_conjunction_risk env (lat st) (lon st) launch_time of
            Inl e \<Rightarrow> (Inl e, trace)
          | Inr c \<Rightarrow>
         (let trace = trace @ [Completed Conjunction] in
          case calculate_risk_score rnd w sw c lim of
            Inl e \<Rightarrow> (Inl e, trace)
          | Inr score \<Rightarrow>
         (let vd = determine_verdict score;
              explanation = generate_explanation f rnd w sw c lim score;
              citations = get_rule_citations f rnd w sw c lim
          in (Inr \<lparr>verdict = vd, risk_score = score, why = explanation,
                    rule_citations = citations,
                    data = Some \<lparr>weather = w, space_weather = sw, conjunction = c\<rparr>\<rparr>,
              trace)))))))"

text \<open>
  Fan-out and fan-in as the specification words it (sections 4.5, 5 and 9): the three
  fetches are all issued before any of them is joined, and all three are joined.
\<close>

definition spec_fan_out_fan_in :: "event list \<Rightarrow> bool" where
  "spec_fan_out_fan_in tr \<longleftrightarrow>
     length tr = 6
   \<and> set (take 3 tr) = {Issued Weather, Issued SpaceWeather, Issued Conjunction}
   \<and> set (drop 3 tr) = {Completed Weather, Completed SpaceWeather, Completed Conjunction}"

text \<open>The log of three awaits in a row, each source joined before the next is called.\<close>

definition sequential_trace :: "event list" where
  "sequential_trace = [Issued Weather, Completed Weather, Issued SpaceWeather,
     Completed SpaceWeather, Issued Conjunction, Completed Conjunction]"

text \<open>
  A string in which every capital A is followed by a character other than a lower-case l.
  The explanation sentinel starts with ``Al''.
\<close>

fun no_capital_A_then_l :: "string \<Rightarrow> bool" where
  "no_capital_A_then_l [] = True"
| "no_capital_A_then_l (a # r) =
     ((a = CHR ''A'' \<longrightarrow> (case r of [] \<Rightarrow> False | b # _ \<Rightarrow> b \<noteq> CHR ''l''))
      \<and> no_capital_A_then_l r)"

text \<open>Both calls return a score, and the second score is at least the first.\<close>

definition score_le :: "error + int \<Rightarrow> error + int \<Rightarrow> bool" where
  "score_le r1 r2 = (case (r1, r2) of (Inr a, Inr b) \<Rightarrow> a \<le> b | _ \<Rightarrow> False)"

subsection \<open>Example inputs\<close>

text \<open>
  The scenario of section 8 of the specification: limits of 30 kn, 6.4 mm and 1500 ft,
  temperatures between -1 and 35 degrees; 35 kn of wind and otherwise calm conditions.
  The examples are evaluated in double arithmetic, and a decimal that no double holds
  exactly stands for the double nearest to it.
\<close>

definition example_limits :: limits where
  "example_limits = \<lparr>max_wind_kn = 30, max_precipitation_mm = round_double 6.4,
     max_cloud_ceiling_ft = 1500, max_temp_c = 35, min_temp_c = -1\<rparr>"

definition windy_weather :: weather where
  "windy_weather = \<lparr>wind_speed_kn = 35, precipitation_mm = 0,
     cloud_ceiling_ft = 10000, temperature_c = 20\<rparr>"

definition calm_weather :: weather where
  "calm_weather = \<lparr>wind_speed_kn = 15, precipitation_mm = 0,
     cloud_ceiling_ft = 10000, temperature_c = 20\<rparr>"

definition quiet_space_weather :: space_weather where
  "quiet_space_weather = \<lparr>kp_index = 2, has_solar_storm = False\<rparr>"

definition no_conjunction :: conjunction where
  "no_conjunction = \<lparr>has_high_risk = False, close_approaches = 0\<rparr>"

text \<open>Wind at 0.8 of its limit and precipitation at 0.5 of its limit.\<close>

definition boundary_weather :: weather where
  "boundary_weather = \<lparr>wind_speed_kn = 24, precipitation_mm = round_double 3.2,
     cloud_ceiling_ft = 10000, temperature_c = 20\<rparr>"

text \<open>A rendering that prints every number as a fixed placeholder.\<close>

definition placeholder_format :: py_format where
  "placeholder_format = \<lparr>fmt_1f = (\<lambda>x. ''#.#''), fmt_0f = (\<lambda>x. ''#''), fmt_str = (\<lambda>x. ''#'')\<rparr>"

text \<open>
  A registry with one site, and data sources that return calm conditions; launch times
  are natural numbers here.
\<close>

definition ksc_site :: site where
  "ksc_site = \<lparr>lat = 28.5, lon = -80.5, limits = example_limits\<rparr>"

definition example_env :: "nat env" where
  "example_env = \<lparr>LAUNCH_SITES = [''KSC'' \<mapsto> ksc_site],
     get_weather = (\<lambda>la lo t. Inr calm_weather),
     get_space_weather = (\<lambda>u. Inr quiet_space_weather),
     get_conjunction_risk = (\<lambda>la lo t. Inr no_conjunction)\<rparr>"

definition failing_weather_env :: "nat env" where
  "failing_weather_env = example_env\<lparr>get_weather := (\<lambda>la lo t. Inl FetchFailure)\<rparr>"

lemmas example_defs =
  example_limits_def windy_weather_def calm_weather_def quiet_space_weather_def
  no_conjunction_def boundary_weather_def

section \<open>Properties of the rounding\<close>

lemma round_half_even_of_int: "round_half_even (of_int n) = n"
  by (simp add: round_half_even_def)

lemma round_half_even_bounds:
  "\<lfloor>y\<rfloor> \<le> round_half_even y" "round_half_even y \<le> \<lfloor>y\<rfloor> + 1"
  by (simp_all add: round_half_even_def Let_def)

lemma round_half_even_mono:
  assumes "x \<le> y"
  shows "round_half_even x \<le> round_half_even y"
proof (cases "\<lfloor>x\<rfloor> = \<lfloor>y\<rfloor>")
  case True
  with assms show ?thesis
    by (auto simp: round_half_even_def Let_def)
next
  case False
  with assms have "\<lfloor>x\<rfloor> + 1 \<le> \<lfloor>y\<rfloor>"
    using floor_mono [OF assms] by linarith
  then show ?thesis
    using round_half_even_bounds(2) [of x] round_half_even_bounds(1) [of y] by linarith
qed

lemma round_half_even_minus: "round_half_even (- y) = - round_half_even y"
proof (cases "y \<in> \<int>")
  case True
  then obtain n where "y = of_int n" by (auto elim: Ints_cases)
  then have "round_half_even (- y) = round_half_even (of_int (- n))" by simp
  also have "\<dots> = - n" by (rule round_half_even_of_int)
  finally show ?thesis using \<open>y = of_int n\<close> by (simp add: round_half_even_of_int)
next
  case False
  then have ne: "y \<noteq> of_int \<lfloor>y\<rfloor>"
    by (metis Ints_of_int)
  then have fl: "\<lfloor>- y\<rfloor> = - \<lfloor>y\<rfloor> - 1"
    by (simp add: floor_minus ceiling_altdef)
  have "y - of_int \<lfloor>y\<rfloor> \<noteq> 0" using ne by simp
  then show ?thesis
    unfolding round_half_even_def Let_def fl by auto
qed

lemma round_double_minus: "round_double (- x) = - round_double x"
  by (simp add: round_double_def Let_def round_half_even_minus)

lemma round_double_binade:
  assumes "2 powr of_int k \<le> \<bar>x\<bar>" and "\<bar>x\<bar> < 2 powr (of_int k + 1)"
  shows "round_double x = of_int (round_half_even (x / 2 powr (of_int k - 52)))
           * 2 powr (of_int k - 52)"
proof -
  have "0 < (2::real) powr of_int k" by simp
  with assms(1) have pos: "0 < \<bar>x\<bar>" by linarith
  then have "\<lfloor>log 2 \<bar>x\<bar>\<rfloor> = k"
    using assms by (simp add: floor_log_eq_powr_iff)
  with pos show ?thesis by (simp add: round_double_def Let_def)
qed

lemma round_double_pos_bounds:
  assumes "0 < x"
  shows "2 powr of_int \<lfloor>log 2 x\<rfloor> \<le> round_double x"
    and "round_double x \<le> 2 powr (of_int \<lfloor>log 2 x\<rfloor> + 1)"
proof -
  define e where "e = \<lfloor>log 2 x\<rfloor>"
  define u :: real where "u = 2 powr (of_int e - 52)"
  have u: "0 < u" by (simp add: u_def)
  have lo: "2 powr of_int e \<le> x" and hi: "x < 2 powr (of_int e + 1)"
    using floor_log_eq_powr_iff [of x 2 e] assms by (simp_all add: e_def)
  have rd: "round_double x = of_int (round_half_even (x / u)) * u"
    using assms by (simp add: round_double_def Let_def e_def u_def)
  have e1: "2 powr of_int e = of_int (2 ^ 52) * u"
    by (simp add: u_def powr_diff)
  have e2: "2 powr (of_int e + 1) = of_int (2 ^ 53) * u"
    by (simp add: u_def powr_diff powr_add)
  have "of_int (2 ^ 52) \<le> x / u" using lo u by (simp add: e1 pos_le_divide_eq)
  from round_half_even_mono [OF this]
  have "2 ^ 52 \<le> round_half_even (x / u)" by (simp only: round_half_even_of_int)
  then have "of_int (2 ^ 52) * u \<le> of_int (round_half_even (x / u)) * u"
    using u by (simp only: mult_le_cancel_right_pos of_int_le_iff)
  then show "2 powr of_int \<lfloor>log 2 x\<rfloor> \<le> round_double x"
    unfolding rd e1 [symmetric] e_def .
  have "x / u \<le> of_int (2 ^ 53)" using hi u by (simp add: e2 pos_divide_le_eq)
  from round_half_even_mono [OF this]
  have "round_half_even (x / u) \<le> 2 ^ 53" by (simp only: round_half_even_of_int)
  then have "of_int (round_half_even (x / u)) * u \<le> of_int (2 ^ 53) * u"
    using u by (simp only: mult_le_cancel_right_pos of_int_le_iff)
  then show "round_double x \<le> 2 powr (of_int \<lfloor>log 2 x\<rfloor> + 1)"
    unfolding rd e2 [symmetric] e_def .
qed

lemma round_double_pos:
  assumes "0 < x"
  shows "0 < round_double x"
proof -
  have "(0::real) < 2 powr of_int \<lfloor>log 2 x\<rfloor>" by simp
  with round_double_pos_bounds(1) [OF assms] show ?thesis by linarith
qed

lemma round_double_mono_pos:
  assumes "0 < x" and "x \<le> y"
  shows "round_double x \<le> round_double y"
proof -
  have y: "0 < y" using assms by linarith
  have le: "\<lfloor>log 2 x\<rfloor> \<le> \<lfloor>log 2 y\<rfloor>"
    using assms by (intro floor_mono) simp
  show ?thesis
  proof (cases "\<lfloor>log 2 x\<rfloor> = \<lfloor>log 2 y\<rfloor>")
    case True
    have "x / 2 powr (of_int \<lfloor>log 2 y\<rfloor> - 52) \<le> y / 2 powr (of_int \<lfloor>log 2 y\<rfloor> - 52)"
      using assms(2) by (simp add: divide_right_mono)
    from round_half_even_mono [OF this] show ?thesis
      using assms(1) y True by (simp add: round_double_def Let_def)
  next
    case False
    with le have "of_int \<lfloor>log 2 x\<rfloor> + (1::real) \<le> of_int \<lfloor>log 2 y\<rfloor>"
      by linarith
    then have "(2::real) powr (of_int \<lfloor>log 2 x\<rfloor> + 1) \<le> 2 powr of_int \<lfloor>log 2 y\<rfloor>"
      by simp
    then show ?thesis
      using round_double_pos_bounds(2) [OF assms(1)] round_double_pos_bounds(1) [OF y]
      by linarith
  qed
qed

lemma round_double_mono: "mono round_double"
proof (rule monoI)
  fix x y :: real
  assume xy: "x \<le> y"
  consider "0 < x" | "x \<le> 0" "0 \<le> y" | "y < 0" by linarith
  then show "round_double x \<le> round_double y"
  proof cases
    case 1
    then show ?thesis using xy by (rule round_double_mono_pos)
  next
    case 2
    have "round_double x \<le> 0"
    proof (cases "x = 0")
      case True then show ?thesis by (simp add: round_double_def)
    next
      case False
      with 2 have "0 < - x" by simp
      from round_double_pos [OF this] show ?thesis by (simp add: round_double_minus)
    qed
    moreover have "0 \<le> round_double y"
    proof (cases "y = 0")
      case True then show ?thesis by (simp add: round_double_def)
    next
      case False
      with 2 have "0 < y" by simp
      from round_double_pos [OF this] show ?thesis by simp
    qed
    ultimately show ?thesis by linarith
  next
    case 3
    then have "0 < - y" "- y \<le> - x" using xy by simp_all
    from round_double_mono_pos [OF this] show ?thesis by (simp add: round_double_minus)
  qed
qed

text \<open>The doubles that the literals of the program and of the examples denote.\<close>

lemma double_0_8: "round_double 0.8 = 3602879701896397 / 4503599627370496"
  using round_double_binade [of "-1" "0.8"]
  by (simp add: powr_neg_numeral round_half_even_def)

lemma double_0_6: "round_double 0.6 = 5404319552844595 / 9007199254740992"
  using round_double_binade [of "-1" "0.6"]
  by (simp add: powr_neg_numeral round_half_even_def)

lemma double_0_7: "round_double 0.7 = 3152519739159347 / 4503599627370496"
  using round_double_binade [of "-1" "0.7"]
  by (simp add: powr_neg_numeral round_half_even_def)

lemma double_0_5: "round_double 0.5 = 1 / 2"
  using round_double_binade [of "-1" "0.5"]
  by (simp add: powr_neg_numeral round_half_even_def)

lemma double_6_4: "round_double 6.4 = 3602879701896397 / 562949953421312"
  using round_double_binade [of 2 "6.4"]
  by (simp add: powr_neg_numeral round_half_even_def)

lemma double_3_2: "round_double 3.2 = 3602879701896397 / 1125899906842624"
  using round_double_binade [of 1 "3.2"]
  by (simp add: powr_neg_numeral round_half_even_def)

lemmas double_literals =
  double_0_8 double_0_6 double_0_7 double_0_5 double_6_4 double_3_2

text \<open>The same, with the decimals as reduced fractions.\<close>

lemma double_fractions:
  "round_double (4 / 5) = 3602879701896397 / 4503599627370496"
  "round_double (3 / 5) = 5404319552844595 / 9007199254740992"
  "round_double (7 / 10) = 3152519739159347 / 4503599627370496"
  "round_double (1 / 2) = 1 / 2"
  "round_double (32 / 5) = 3602879701896397 / 562949953421312"
  "round_double (16 / 5) = 3602879701896397 / 1125899906842624"
  using double_literals by simp_all

text \<open>The quotients, products, sums and differences that the examples compute.\<close>

lemma example_wind_threshold:
  "round_double (max_wind_kn example_limits * round_double 0.8) = 24"
  unfolding example_limits_def double_literals
  using round_double_binade [of 4 "30 * (3602879701896397 / 4503599627370496)"]
  by (simp add: powr_neg_numeral round_half_even_def)

lemma example_precipitation_threshold:
  "round_double (max_precipitation_mm example_limits * round_double 0.5) = round_double 3.2"
  unfolding example_limits_def double_literals
  using round_double_binade [of 1 "3602879701896397 / 562949953421312 * (1 / 2)"]
  by (simp add: powr_neg_numeral round_half_even_def)

lemma example_temperature_thresholds:
  "round_double (max_temp_c example_limits - 5) = 30"
  "round_double (min_temp_c example_limits + 5) = 4"
  unfolding example_limits_def
  using round_double_binade [of 4 30] round_double_binade [of 2 4]
  by (simp_all add: powr_neg_numeral round_half_even_def)

lemma example_boundary_ratios:
  "round_double (wind_speed_kn boundary_weather / max_wind_kn example_limits)
     = round_double 0.8"
  "round_double (precipitation_mm boundary_weather / max_precipitation_mm example_limits)
     = round_double 0.5"
  unfolding example_limits_def boundary_weather_def double_literals
  using round_double_binade [of "-1" "24 / 30"] round_double_binade [of "-1" "1 / 2"]
  by (simp_all add: powr_neg_numeral round_half_even_def)

lemma example_calm_ratios:
  "round_double (wind_speed_kn calm_weather / max_wind_kn example_limits) = 1 / 2"
  "round_double (precipitation_mm calm_weather / max_precipitation_mm example_limits) = 0"
  unfolding example_limits_def calm_weather_def double_literals
  using round_double_binade [of "-1" "1 / 2"]
  by (simp_all add: powr_neg_numeral round_half_even_def round_double_def)

lemma example_limits_positive:
  "0 < max_wind_kn example_limits" "0 < max_precipitation_mm example_limits"
  by (simp_all add: example_limits_def round_double_pos)

section \<open>Properties of the scorer\<close>

lemma wind_step:
  "(if r \<ge> 1 then s + 40 else if r \<ge> rnd 0.8 then s + 20
    else if r \<ge> rnd 0.6 then s + 10 else s) = s + spec_wind_points rnd r"
  by (simp add: spec_wind_points_def)

lemma precip_step:
  "(if r \<ge> 5 then s + 50 else if r \<ge> 2 then s + 35 else if r \<ge> 1 then s + 25
    else if r \<ge> rnd 0.7 then s + 15 else s) = s + spec_precip_points rnd r"
  by (simp add: spec_precip_points_def)

lemma cloud_step:
  "(if x < 1000 then s + 40 else if x < 2000 then s + 30 else if x < 3000 then s + 20
    else if x < cap then s + 10 else s) = s + spec_cloud_points x cap"
  by (simp add: spec_cloud_points_def)

lemma temp_step:
  "(if t > hi \<or> t < lo then s + 25
    else if t > rnd (hi - 5) \<or> t < rnd (lo + 5) then s + 10 else s)
     = s + spec_temp_points rnd t lo hi"
  by (simp add: spec_temp_points_def)

lemma kp_step:
  "(if k \<ge> 7 then s + 30 else if k \<ge> 5 then s + 15 else if k \<ge> 3 then s + 5 else s)
     = s + spec_kp_points k"
  by (simp add: spec_kp_points_def)

lemma storm_step: "(if b then s + 20 else s) = s + spec_storm_points b"
  by (simp add: spec_storm_points_def)

lemma conjunction_step:
  "(if h then s + 40 else if n > 0 then s + 10 else s) = s + spec_conjunction_points h n"
  by (simp add: spec_conjunction_points_def)

lemmas band_steps =
  wind_step precip_step cloud_step temp_step kp_step storm_step conjunction_step

lemma calculate_risk_score_bands:
  assumes "max_wind_kn l \<noteq> 0" and "max_precipitation_mm l \<noteq> 0"
  shows "calculate_risk_score rnd w sw c l = Inr (min (spec_band_sum rnd w sw c l) 100)"
  unfolding calculate_risk_score_def py_truediv_def band_steps
  using assms by (simp add: Let_def spec_band_sum_def)

lemma calculate_risk_score_zero_wind:
  "max_wind_kn l = 0 \<Longrightarrow> calculate_risk_score rnd w sw c l = Inl ZeroDivisionError"
  by (simp add: calculate_risk_score_def py_truediv_def)

lemma calculate_risk_score_zero_precip:
  "max_precipitation_mm l = 0 \<Longrightarrow> calculate_risk_score rnd w sw c l = Inl ZeroDivisionError"
  unfolding calculate_risk_score_def py_truediv_def band_steps
  by (simp add: Let_def)

lemma spec_band_sum_nonneg: "0 \<le> spec_band_sum rnd w sw c l"
proof -
  have "0 \<le> spec_wind_points rnd a" for a by (simp add: spec_wind_points_def)
  moreover have "0 \<le> spec_precip_points rnd a" for a by (simp add: spec_precip_points_def)
  moreover have "0 \<le> spec_cloud_points a b" for a b by (simp add: spec_cloud_points_def)
  moreover have "0 \<le> spec_temp_points rnd a b d" for a b d
    by (simp add: spec_temp_points_def)
  moreover have "0 \<le> spec_kp_points a" for a by (simp add: spec_kp_points_def)
  moreover have "0 \<le> spec_storm_points a" for a by (simp add: spec_storm_points_def)
  moreover have "0 \<le> spec_conjunction_points a b" for a b
    by (simp add: spec_conjunction_points_def)
  ultimately show ?thesis
    unfolding spec_band_sum_def by (intro add_nonneg_nonneg)
qed

lemma example_windy_score:
  "calculate_risk_score round_double windy_weather quiet_space_weather no_conjunction
     example_limits = Inr 40"
proof -
  have q: "round_double (wind_speed_kn windy_weather / max_wind_kn example_limits)
      = 5254199565265579 / 4503599627370496"
    unfolding windy_weather_def example_limits_def
    using round_double_binade [of 0 "35 / 30"]
    by (simp add: powr_neg_numeral round_half_even_def)
  have q': "round_double (precipitation_mm windy_weather / max_precipitation_mm example_limits)
      = 0"
    by (simp add: windy_weather_def round_double_def)
  have "spec_band_sum round_double windy_weather quiet_space_weather no_conjunction
      example_limits = 40"
    unfolding spec_band_sum_def q q' spec_wind_points_def
      spec_precip_points_def spec_temp_points_def example_temperature_thresholds
      double_literals
    by (simp add: spec_cloud_points_def spec_kp_points_def spec_storm_points_def
        spec_conjunction_points_def example_defs)
  then show ?thesis
    using example_limits_positive by (simp add: calculate_risk_score_bands)
qed

text \<open>
  C1. Whatever the rounding of the float operations, with strictly positive wind and
  precipitation limits (the two divisors; the other limit fields may have any value)
  \<open>calculate_risk_score\<close> returns an integer, that integer is the sum of the band points
  clamped at 100, the bands being entered with the quotients as the code computes them,
  and it lies between 0 and 100.
\<close>

theorem calculate_risk_score_range:
  assumes "0 < max_wind_kn l" and "0 < max_precipitation_mm l"
  shows "\<exists>s. calculate_risk_score rnd w sw c l = Inr s
           \<and> s = min (spec_band_sum rnd w sw c l) 100 \<and> 0 \<le> s \<and> s \<le> 100"
proof -
  have "calculate_risk_score rnd w sw c l = Inr (min (spec_band_sum rnd w sw c l) 100)"
    using assms by (intro calculate_risk_score_bands) simp_all
  moreover have "0 \<le> min (spec_band_sum rnd w sw c l) 100"
    using spec_band_sum_nonneg [of rnd w sw c l] by simp
  ultimately show ?thesis by simp
qed

theorem calculate_risk_score_range_witness:
  "0 < max_wind_kn example_limits \<and> 0 < max_precipitation_mm example_limits
   \<and> calculate_risk_score round_double windy_weather quiet_space_weather
        no_conjunction example_limits = Inr 40
   \<and> min (spec_band_sum round_double windy_weather quiet_space_weather
             no_conjunction example_limits) 100 = 40"
  using example_limits_positive example_windy_score
    calculate_risk_score_range [OF example_limits_positive,
      of round_double windy_weather quiet_space_weather no_conjunction]
  by auto

text \<open>
  C8. With strictly positive wind and precipitation limits both guarded divisions return
  a quotient and the scorer returns a score, so the error branch is not reached. When
  either divisor is zero the scorer does not recover: the \<open>ZeroDivisionError\<close> is its
  result.
\<close>

theorem calculate_risk_score_division_defined:
  "(0 < max_wind_kn l \<and> 0 < max_precipitation_mm l \<longrightarrow>
      py_truediv rnd (wind_speed_kn w) (max_wind_kn l)
        = Inr (rnd (wind_speed_kn w / max_wind_kn l))
    \<and> py_truediv rnd (precipitation_mm w) (max_precipitation_mm l)
        = Inr (rnd (precipitation_mm w / max_precipitation_mm l))
    \<and> (\<exists>s. calculate_risk_score rnd w sw c l = Inr s))
   \<and> (max_wind_kn l = 0 \<or> max_precipitation_mm l = 0 \<longrightarrow>
        calculate_risk_score rnd w sw c l = Inl ZeroDivisionError)"
proof (intro conjI impI)
  assume pos: "0 < max_wind_kn l \<and> 0 < max_precipitation_mm l"
  show "py_truediv rnd (wind_speed_kn w) (max_wind_kn l)
          = Inr (rnd (wind_speed_kn w / max_wind_kn l))"
    using pos by (simp add: py_truediv_def)
  show "py_truediv rnd (precipitation_mm w) (max_precipitation_mm l)
          = Inr (rnd (precipitation_mm w / max_precipitation_mm l))"
    using pos by (simp add: py_truediv_def)
  have "calculate_risk_score rnd w sw c l = Inr (min (spec_band_sum rnd w sw c l) 100)"
    using pos by (intro calculate_risk_score_bands) simp_all
  then show "\<exists>s. calculate_risk_score rnd w sw c l = Inr s" by blast
next
  assume "max_wind_kn l = 0 \<or> max_precipitation_mm l = 0"
  then show "calculate_risk_score rnd w sw c l = Inl ZeroDivisionError"
    using calculate_risk_score_zero_wind calculate_risk_score_zero_precip by blast
qed

theorem calculate_risk_score_division_defined_witness:
  "(\<exists>s. calculate_risk_score round_double calm_weather quiet_space_weather no_conjunction
            example_limits = Inr s)
   \<and> calculate_risk_score round_double calm_weather quiet_space_weather no_conjunction
        (example_limits\<lparr>max_precipitation_mm := 0\<rparr>) = Inl ZeroDivisionError
   \<and> calculate_risk_score round_double calm_weather quiet_space_weather no_conjunction
        (example_limits\<lparr>max_wind_kn := 0\<rparr>) = Inl ZeroDivisionError"
  using example_limits_positive
    calculate_risk_score_division_defined
      [of example_limits round_double calm_weather quiet_space_weather no_conjunction]
    calculate_risk_score_division_defined
      [of "example_limits\<lparr>max_precipitation_mm := 0\<rparr>" round_double calm_weather
          quiet_space_weather no_conjunction]
    calculate_risk_score_division_defined
      [of "example_limits\<lparr>max_wind_kn := 0\<rparr>" round_double calm_weather
          quiet_space_weather no_conjunction]
  by simp

lemma spec_wind_points_mono:
  "r \<le> r' \<Longrightarrow> spec_wind_points rnd r \<le> spec_wind_points rnd r'"
  by (simp add: spec_wind_points_def)

lemma spec_precip_points_mono:
  "r \<le> r' \<Longrightarrow> spec_precip_points rnd r \<le> spec_precip_points rnd r'"
  by (simp add: spec_precip_points_def)

lemma spec_cloud_points_antimono:
  "x \<le> y \<Longrightarrow> spec_cloud_points y cap \<le> spec_cloud_points x cap"
  by (simp add: spec_cloud_points_def)

lemma spec_kp_points_mono: "k \<le> k' \<Longrightarrow> spec_kp_points k \<le> spec_kp_points k'"
  by (simp add: spec_kp_points_def)

lemma spec_storm_points_mono: "spec_storm_points False \<le> spec_storm_points True"
  by (simp add: spec_storm_points_def)

lemma spec_conjunction_points_mono_count:
  "m \<le> n \<Longrightarrow> spec_conjunction_points h m \<le> spec_conjunction_points h n"
  by (simp add: spec_conjunction_points_def)

lemma spec_conjunction_points_mono_flag:
  "spec_conjunction_points False n \<le> spec_conjunction_points True n"
  by (simp add: spec_conjunction_points_def)

lemma score_le_bands:
  assumes "max_wind_kn l \<noteq> 0" and "max_precipitation_mm l \<noteq> 0"
    and "spec_band_sum rnd w sw c l \<le> spec_band_sum rnd w' sw' c' l"
  shows "score_le (calculate_risk_score rnd w sw c l) (calculate_risk_score rnd w' sw' c' l)"
  using assms by (simp add: calculate_risk_score_bands score_le_def)

text \<open>
  C6. With strictly positive wind and precipitation limits, a rounding of the quotients
  that preserves order (as rounding to the nearest double does), and everything else held
  fixed, the score does not decrease when the wind speed, the precipitation, the Kp index
  or the number of close approaches grows, or when the solar-storm flag or the high-risk
  flag goes from false to true; and it does not increase when the cloud ceiling rises.
\<close>

theorem calculate_risk_score_monotone:
  assumes "mono rnd" and "0 < max_wind_kn l" and "0 < max_precipitation_mm l"
  shows "(x \<le> y \<longrightarrow> score_le (calculate_risk_score rnd (w\<lparr>wind_speed_kn := x\<rparr>) sw c l)
                           (calculate_risk_score rnd (w\<lparr>wind_speed_kn := y\<rparr>) sw c l))
       \<and> (x \<le> y \<longrightarrow> score_le (calculate_risk_score rnd (w\<lparr>precipitation_mm := x\<rparr>) sw c l)
                           (calculate_risk_score rnd (w\<lparr>precipitation_mm := y\<rparr>) sw c l))
       \<and> (x \<le> y \<longrightarrow> score_le (calculate_risk_score rnd w (sw\<lparr>kp_index := x\<rparr>) c l)
                           (calculate_risk_score rnd w (sw\<lparr>kp_index := y\<rparr>) c l))
       \<and> (m \<le> n \<longrightarrow> score_le (calculate_risk_score rnd w sw (c\<lparr>close_approaches := m\<rparr>) l)
                           (calculate_risk_score rnd w sw (c\<lparr>close_approaches := n\<rparr>) l))
       \<and> score_le (calculate_risk_score rnd w (sw\<lparr>has_solar_storm := False\<rparr>) c l)
                  (calculate_risk_score rnd w (sw\<lparr>has_solar_storm := True\<rparr>) c l)
       \<and> score_le (calculate_risk_score rnd w sw (c\<lparr>has_high_risk := False\<rparr>) l)
                  (calculate_risk_score rnd w sw (c\<lparr>has_high_risk := True\<rparr>) l)
       \<and> (x \<le> y \<longrightarrow> score_le (calculate_risk_score rnd (w\<lparr>cloud_ceiling_ft := y\<rparr>) sw c l)
                           (calculate_risk_score rnd (w\<lparr>cloud_ceiling_ft := x\<rparr>) sw c l))"
proof -
  have nz: "max_wind_kn l \<noteq> 0" "max_precipitation_mm l \<noteq> 0"
    using assms by simp_all
  have quot: "rnd (a / d) \<le> rnd (b / d)" if "a \<le> b" and "0 < d" for a b d :: real
    using that assms(1) by (simp add: monoD divide_right_mono)
  have wind: "spec_band_sum rnd (w\<lparr>wind_speed_kn := x\<rparr>) sw c l
                \<le> spec_band_sum rnd (w\<lparr>wind_speed_kn := y\<rparr>) sw c l" if "x \<le> y"
    using quot [OF that assms(2)]
    by (simp add: spec_band_sum_def spec_wind_points_mono)
  have precip: "spec_band_sum rnd (w\<lparr>precipitation_mm := x\<rparr>) sw c l
                  \<le> spec_band_sum rnd (w\<lparr>precipitation_mm := y\<rparr>) sw c l" if "x \<le> y"
    using quot [OF that assms(3)]
    by (simp add: spec_band_sum_def spec_precip_points_mono)
  have kp: "spec_band_sum rnd w (sw\<lparr>kp_index := x\<rparr>) c l
              \<le> spec_band_sum rnd w (sw\<lparr>kp_index := y\<rparr>) c l" if "x \<le> y"
    using that by (simp add: spec_band_sum_def spec_kp_points_mono)
  have cnt: "spec_band_sum rnd w sw (c\<lparr>close_approaches := m\<rparr>) l
               \<le> spec_band_sum rnd w sw (c\<lparr>close_approaches := n\<rparr>) l" if "m \<le> n"
    using that by (simp add: spec_band_sum_def spec_conjunction_points_mono_count)
  have storm: "spec_band_sum rnd w (sw\<lparr>has_solar_storm := False\<rparr>) c l
                 \<le> spec_band_sum rnd w (sw\<lparr>has_solar_storm := True\<rparr>) c l"
    by (simp add: spec_band_sum_def spec_storm_points_mono)
  have risk: "spec_band_sum rnd w sw (c\<lparr>has_high_risk := False\<rparr>) l
                \<le> spec_band_sum rnd w sw (c\<lparr>has_high_risk := True\<rparr>) l"
    by (simp add: spec_band_sum_def spec_conjunction_points_mono_flag)
  have cloud: "spec_band_sum rnd (w\<lparr>cloud_ceiling_ft := y\<rparr>) sw c l
                 \<le> spec_band_sum rnd (w\<lparr>cloud_ceiling_ft := x\<rparr>) sw c l" if "x \<le> y"
    using that by (simp add: spec_band_sum_def spec_cloud_points_antimono)
  show ?thesis
    using wind precip kp cnt storm risk cloud
    by (intro conjI impI score_le_bands nz) simp_all
qed

theorem calculate_risk_score_monotone_witness:
  "mono round_double
   \<and> 0 < max_wind_kn example_limits \<and> 0 < max_precipitation_mm example_limits
   \<and> score_le
        (calculate_risk_score round_double (calm_weather\<lparr>wind_speed_kn := 10\<rparr>)
           quiet_space_weather no_conjunction example_limits)
        (calculate_risk_score round_double (calm_weather\<lparr>wind_speed_kn := 35\<rparr>)
           quiet_space_weather no_conjunction example_limits)
   \<and> score_le
        (calculate_risk_score round_double calm_weather quiet_space_weather
           (no_conjunction\<lparr>close_approaches := 0\<rparr>) example_limits)
        (calculate_risk_score round_double calm_weather quiet_space_weather
           (no_conjunction\<lparr>close_approaches := 3\<rparr>) example_limits)
   \<and> score_le
        (calculate_risk_score round_double (calm_weather\<lparr>cloud_ceiling_ft := 35\<rparr>)
           quiet_space_weather no_conjunction example_limits)
        (calculate_risk_score round_double (calm_weather\<lparr>cloud_ceiling_ft := 10\<rparr>)
           quiet_space_weather no_conjunction example_limits)"
  using round_double_mono example_limits_positive
    calculate_risk_score_monotone
      [OF round_double_mono example_limits_positive,
       where x = 10 and y = 35 and w = calm_weather
         and sw = quiet_space_weather and c = no_conjunction and m = 0 and n = 3]
  by simp

section \<open>Properties of the verdict classifier\<close>

text \<open>
  C2. The verdict is NO-GO exactly for scores of 70 and more, MARGINAL exactly for scores
  from 40 up to 69, and GO exactly for scores below 40; so 39 is GO, 40 and 69 are
  MARGINAL and 70 is NO-GO.
\<close>

theorem determine_verdict_partition:
  "(s \<ge> 70 \<longrightarrow> determine_verdict s = ''NO-GO'')
   \<and> (40 \<le> s \<and> s < 70 \<longrightarrow> determine_verdict s = ''MARGINAL'')
   \<and> (s < 40 \<longrightarrow> determine_verdict s = ''GO'')
   \<and> (determine_verdict s = ''NO-GO'' \<longrightarrow> s \<ge> 70)
   \<and> (determine_verdict s = ''MARGINAL'' \<longrightarrow> 40 \<le> s \<and> s < 70)
   \<and> (determine_verdict s = ''GO'' \<longrightarrow> s < 40)
   \<and> determine_verdict 39 = ''GO'' \<and> determine_verdict 40 = ''MARGINAL''
   \<and> determine_verdict 69 = ''MARGINAL'' \<and> determine_verdict 70 = ''NO-GO''"
  by (simp add: determine_verdict_def)

theorem determine_verdict_partition_witness:
  "determine_verdict 85 = ''NO-GO'' \<and> determine_verdict 55 = ''MARGINAL''
   \<and> determine_verdict 12 = ''GO''"
  using determine_verdict_partition [of 85] determine_verdict_partition [of 55]
    determine_verdict_partition [of 12]
  by simp

section \<open>Properties of the explanation and citation generators\<close>

lemma append_step: "(if b then xs @ [s] else xs) = xs @ (if b then [s] else [])"
  by simp

lemma mem_optional: "x \<in> set (if b then [s] else []) \<longleftrightarrow> b \<and> x = s"
  by auto

lemma optional_Nil: "(if b then [s] else []) = [] \<longleftrightarrow> \<not> b"
  by simp

lemma explanation_issues_concat:
  "explanation_issues f rnd w sw c l =
     (if wind_speed_kn w > rnd (max_wind_kn l * rnd 0.8) then [wind_issue f w l] else [])
   @ (if precipitation_mm w > rnd (max_precipitation_mm l * rnd 0.5)
      then [precipitation_issue f w l] else [])
   @ (if cloud_ceiling_ft w < max_cloud_ceiling_ft l then [cloud_ceiling_issue f w l] else [])
   @ (if temperature_c w > rnd (max_temp_c l - 5) then [upper_temperature_issue f w] else [])
   @ (if temperature_c w < rnd (min_temp_c l + 5) then [lower_temperature_issue f w] else [])
   @ (if kp_index sw \<ge> 5 then [kp_issue f sw] else [])
   @ (if has_solar_storm sw then [solar_storm_issue] else [])
   @ (if has_high_risk c then [conjunction_issue] else [])"
  unfolding explanation_issues_def append_step
  by (simp only: Let_def append_Nil append_assoc)

lemma mem_explanation_issues:
  "x \<in> set (explanation_issues f rnd w sw c l) \<longleftrightarrow>
     (wind_speed_kn w > rnd (max_wind_kn l * rnd 0.8) \<and> x = wind_issue f w l)
   \<or> (precipitation_mm w > rnd (max_precipitation_mm l * rnd 0.5) \<and> x = precipitation_issue f w l)
   \<or> (cloud_ceiling_ft w < max_cloud_ceiling_ft l \<and> x = cloud_ceiling_issue f w l)
   \<or> (temperature_c w > rnd (max_temp_c l - 5) \<and> x = upper_temperature_issue f w)
   \<or> (temperature_c w < rnd (min_temp_c l + 5) \<and> x = lower_temperature_issue f w)
   \<or> (kp_index sw \<ge> 5 \<and> x = kp_issue f sw)
   \<or> (has_solar_storm sw \<and> x = solar_storm_issue)
   \<or> (has_high_risk c \<and> x = conjunction_issue)"
  unfolding explanation_issues_concat
  by (simp only: set_append Un_iff mem_optional)

lemma explanation_issues_Nil:
  "explanation_issues f rnd w sw c l = [] \<longleftrightarrow> \<not> explanation_triggered rnd w sw c l"
  unfolding explanation_issues_concat explanation_triggered_def
  by (simp only: append_is_Nil_conv optional_Nil de_Morgan_disj)

lemmas issue_defs =
  wind_issue_def precipitation_issue_def cloud_ceiling_issue_def upper_temperature_issue_def
  lower_temperature_issue_def kp_issue_def solar_storm_issue_def conjunction_issue_def

lemma wind_issue_distinct:
  "wind_issue f w l \<noteq> precipitation_issue f w l"
  "wind_issue f w l \<noteq> cloud_ceiling_issue f w l"
  "wind_issue f w l \<noteq> upper_temperature_issue f w"
  "wind_issue f w l \<noteq> lower_temperature_issue f w"
  "wind_issue f w l \<noteq> kp_issue f sw"
  "wind_issue f w l \<noteq> solar_storm_issue"
  "wind_issue f w l \<noteq> conjunction_issue"
  by (simp_all add: issue_defs)

lemma precipitation_issue_distinct:
  "precipitation_issue f w l \<noteq> wind_issue f w l"
  "precipitation_issue f w l \<noteq> cloud_ceiling_issue f w l"
  "precipitation_issue f w l \<noteq> upper_temperature_issue f w"
  "precipitation_issue f w l \<noteq> lower_temperature_issue f w"
  "precipitation_issue f w l \<noteq> kp_issue f sw"
  "precipitation_issue f w l \<noteq> solar_storm_issue"
  "precipitation_issue f w l \<noteq> conjunction_issue"
  by (simp_all add: issue_defs)

lemma cloud_ceiling_issue_distinct:
  "cloud_ceiling_issue f w l \<noteq> wind_issue f w l"
  "cloud_ceiling_issue f w l \<noteq> precipitation_issue f w l"
  "cloud_ceiling_issue f w l \<noteq> upper_temperature_issue f w"
  "cloud_ceiling_issue f w l \<noteq> lower_temperature_issue f w"
  "cloud_ceiling_issue f w l \<noteq> kp_issue f sw"
  "cloud_ceiling_issue f w l \<noteq> solar_storm_issue"
  "cloud_ceiling_issue f w l \<noteq> conjunction_issue"
  by (simp_all add: issue_defs)

lemma temperature_issue_distinct:
  "upper_temperature_issue f w \<noteq> wind_issue f w l"
  "upper_temperature_issue f w \<noteq> precipitation_issue f w l"
  "upper_temperature_issue f w \<noteq> cloud_ceiling_issue f w l"
  "upper_temperature_issue f w \<noteq> lower_temperature_issue f w"
  "upper_temperature_issue f w \<noteq> kp_issue f sw"
  "upper_temperature_issue f w \<noteq> solar_storm_issue"
  "upper_temperature_issue f w \<noteq> conjunction_issue"
  "lower_temperature_issue f w \<noteq> wind_issue f w l"
  "lower_temperature_issue f w \<noteq> precipitation_issue f w l"
  "lower_temperature_issue f w \<noteq> cloud_ceiling_issue f w l"
  "lower_temperature_issue f w \<noteq> upper_temperature_issue f w"
  "lower_temperature_issue f w \<noteq> kp_issue f sw"
  "lower_temperature_issue f w \<noteq> solar_storm_issue"
  "lower_temperature_issue f w \<noteq> conjunction_issue"
  by (simp_all add: issue_defs)

lemma wind_issue_reported:
  "wind_issue f w l \<in> set (explanation_issues f rnd w sw c l)
     \<longleftrightarrow> wind_speed_kn w > rnd (max_wind_kn l * rnd 0.8)"
  by (simp add: mem_explanation_issues wind_issue_distinct)

lemma precipitation_issue_reported:
  "precipitation_issue f w l \<in> set (explanation_issues f rnd w sw c l)
     \<longleftrightarrow> precipitation_mm w > rnd (max_precipitation_mm l * rnd 0.5)"
  by (simp add: mem_explanation_issues precipitation_issue_distinct)

lemma cloud_ceiling_issue_reported:
  "cloud_ceiling_issue f w l \<in> set (explanation_issues f rnd w sw c l)
     \<longleftrightarrow> cloud_ceiling_ft w < max_cloud_ceiling_ft l"
  by (simp add: mem_explanation_issues cloud_ceiling_issue_distinct)

lemma upper_temperature_issue_reported:
  "upper_temperature_issue f w \<in> set (explanation_issues f rnd w sw c l)
     \<longleftrightarrow> temperature_c w > rnd (max_temp_c l - 5)"
  by (simp add: mem_explanation_issues temperature_issue_distinct)

lemma lower_temperature_issue_reported:
  "lower_temperature_issue f w \<in> set (explanation_issues f rnd w sw c l)
     \<longleftrightarrow> temperature_c w < rnd (min_temp_c l + 5)"
  by (simp add: mem_explanation_issues temperature_issue_distinct)


lemma join_Cons: "join sep (x # xs) = x @ (if xs = [] then [] else sep @ join sep xs)"
  by (cases xs) simp_all

lemma issue_first_chars:
  assumes "x \<in> set (explanation_issues f rnd w sw c l)"
  shows "\<exists>a b r. x = a # b # r \<and> (a, b) \<noteq> (CHR ''A'', CHR ''l'')"
  using assms unfolding mem_explanation_issues
  by (elim disjE conjE) (simp_all add: issue_defs)

lemma generate_explanation_quiet:
  "\<not> explanation_triggered rnd w sw c l \<Longrightarrow>
     generate_explanation f rnd w sw c l r = explanation_sentinel"
  by (simp add: generate_explanation_def explanation_issues_Nil)

lemma generate_explanation_triggered:
  assumes "explanation_triggered rnd w sw c l"
  shows "\<exists>a b r'. generate_explanation f rnd w sw c l r = a # b # r'
           \<and> (a, b) \<noteq> (CHR ''A'', CHR ''l'')"
proof -
  from assms have ne: "explanation_issues f rnd w sw c l \<noteq> []"
    by (simp add: explanation_issues_Nil)
  then obtain x xs where xs: "explanation_issues f rnd w sw c l = x # xs"
    by (cases "explanation_issues f rnd w sw c l") auto
  then have "x \<in> set (explanation_issues f rnd w sw c l)" by simp
  then obtain a b t where x: "x = a # b # t" and ab: "(a, b) \<noteq> (CHR ''A'', CHR ''l'')"
    using issue_first_chars by blast
  have "generate_explanation f rnd w sw c l r = join ''; '' (x # xs)"
    using ne xs by (simp add: generate_explanation_def)
  also have "\<dots> = a # b # (t @ (if xs = [] then [] else ''; '' @ join ''; '' xs))"
    unfolding join_Cons x by simp
  finally show ?thesis using ab by blast
qed

lemmas citation_defs =
  cloud_citation_def wind_citation_def precipitation_citation_def kp_citation_def
  cola_citation_def citation_sentinel_def

lemma get_rule_citations_concat:
  "get_rule_citations f rnd w sw c l =
    (if citation_triggered rnd w sw c l
     then (if cloud_ceiling_ft w < max_cloud_ceiling_ft l then [cloud_citation] else [])
        @ (if wind_speed_kn w > rnd (max_wind_kn l * rnd 0.8) then [wind_citation f l] else [])
        @ (if precipitation_mm w > rnd (max_precipitation_mm l * rnd 0.5)
           then [precipitation_citation] else [])
        @ (if kp_index sw \<ge> 5 then [kp_citation] else [])
        @ (if has_high_risk c then [cola_citation] else [])
     else [citation_sentinel])"
proof -
  let ?cs = "(if cloud_ceiling_ft w < max_cloud_ceiling_ft l then [cloud_citation] else [])
        @ (if wind_speed_kn w > rnd (max_wind_kn l * rnd 0.8) then [wind_citation f l] else [])
        @ (if precipitation_mm w > rnd (max_precipitation_mm l * rnd 0.5)
           then [precipitation_citation] else [])
        @ (if kp_index sw \<ge> 5 then [kp_citation] else [])
        @ (if has_high_risk c then [cola_citation] else [])"
  have "get_rule_citations f rnd w sw c l = ?cs @ (if ?cs = [] then [citation_sentinel] else [])"
    unfolding get_rule_citations_def append_step
    by (simp only: Let_def append_Nil append_assoc)
  moreover have "?cs = [] \<longleftrightarrow> \<not> citation_triggered rnd w sw c l"
    unfolding citation_triggered_def
    by (simp only: append_is_Nil_conv optional_Nil de_Morgan_disj)
  ultimately show ?thesis
    by (cases "citation_triggered rnd w sw c l") simp_all
qed

lemma get_rule_citations_quiet:
  "\<not> citation_triggered rnd w sw c l \<Longrightarrow> get_rule_citations f rnd w sw c l = [citation_sentinel]"
  by (simp add: get_rule_citations_concat)

lemma get_rule_citations_triggered:
  assumes "citation_triggered rnd w sw c l"
  shows "citation_sentinel \<notin> set (get_rule_citations f rnd w sw c l)"
proof -
  have "citation_sentinel \<noteq> cloud_citation" "citation_sentinel \<noteq> wind_citation f l"
    "citation_sentinel \<noteq> precipitation_citation" "citation_sentinel \<noteq> kp_citation"
    "citation_sentinel \<noteq> cola_citation"
    by (simp_all add: citation_defs)
  then show ?thesis
    using assms unfolding get_rule_citations_concat
    by (simp only: if_True set_append Un_iff mem_optional) blast
qed

lemma get_rule_citations_nonempty: "get_rule_citations f rnd w sw c l \<noteq> []"
  by (auto simp: get_rule_citations_concat citation_triggered_def)

lemma no_capital_A_then_l_append:
  "no_capital_A_then_l xs \<Longrightarrow> no_capital_A_then_l ys \<Longrightarrow> no_capital_A_then_l (xs @ ys)"
  by (induction xs) (auto split: list.splits)

lemma no_capital_A_then_l_free:
  "CHR ''A'' \<notin> set s \<Longrightarrow> no_capital_A_then_l s"
  by (induction s) auto

lemma no_capital_A_then_l_middle:
  "\<not> no_capital_A_then_l (ps @ CHR ''A'' # CHR ''l'' # ss)"
  by (induction ps) auto

lemma no_capital_A_then_l_join:
  "no_capital_A_then_l sep \<Longrightarrow> \<forall>x \<in> set xs. no_capital_A_then_l x
     \<Longrightarrow> no_capital_A_then_l (join sep xs)"
  by (induction sep xs rule: join.induct) (simp_all add: no_capital_A_then_l_append)

lemma issues_no_capital_A_then_l:
  assumes "\<And>x. CHR ''A'' \<notin> set (fmt_1f f x)" and "\<And>x. CHR ''A'' \<notin> set (fmt_0f f x)"
    and "\<And>x. CHR ''A'' \<notin> set (fmt_str f x)"
    and "s \<in> set (explanation_issues f rnd w sw c l)"
  shows "no_capital_A_then_l s"
proof -
  note fm = assms(1-3) [THEN no_capital_A_then_l_free]
  have "no_capital_A_then_l (wind_issue f w l)"
    "no_capital_A_then_l (precipitation_issue f w l)"
    "no_capital_A_then_l (cloud_ceiling_issue f w l)"
    "no_capital_A_then_l (upper_temperature_issue f w)"
    "no_capital_A_then_l (lower_temperature_issue f w)"
    "no_capital_A_then_l (kp_issue f sw)"
    "no_capital_A_then_l solar_storm_issue"
    "no_capital_A_then_l conjunction_issue"
    unfolding issue_defs
    by (intro no_capital_A_then_l_append fm | simp)+
  with assms(4) show ?thesis
    unfolding mem_explanation_issues by blast
qed

lemma sentinel_not_inside_explanation:
  assumes "\<And>x. CHR ''A'' \<notin> set (fmt_1f f x)" and "\<And>x. CHR ''A'' \<notin> set (fmt_0f f x)"
    and "\<And>x. CHR ''A'' \<notin> set (fmt_str f x)"
    and "explanation_triggered rnd w sw c l"
  shows "generate_explanation f rnd w sw c l r \<noteq> ps @ explanation_sentinel @ ss"
proof
  assume eq: "generate_explanation f rnd w sw c l r = ps @ explanation_sentinel @ ss"
  have "generate_explanation f rnd w sw c l r = join ''; '' (explanation_issues f rnd w sw c l)"
    using assms(4) by (simp add: generate_explanation_def explanation_issues_Nil)
  moreover have "no_capital_A_then_l (join ''; '' (explanation_issues f rnd w sw c l))"
    using issues_no_capital_A_then_l [OF assms(1-3)]
    by (intro no_capital_A_then_l_join) simp_all
  ultimately have "no_capital_A_then_l (ps @ explanation_sentinel @ ss)"
    using eq by simp
  moreover have "\<exists>t. explanation_sentinel @ ss = CHR ''A'' # CHR ''l'' # t"
    by (simp add: explanation_sentinel_def)
  ultimately show False
    using no_capital_A_then_l_middle by metis
qed

text \<open>
  C5. Neither generator returns an empty result. When none of its conditions holds,
  \<open>generate_explanation\<close> returns exactly the sentinel sentence and
  \<open>get_rule_citations\<close> returns exactly the one-element list holding its sentinel. When
  some condition holds, the explanation is not the sentinel sentence and the citation
  sentinel is not among the citations; moreover, when the renderings of numbers contain no
  capital A, the sentinel sentence occurs nowhere inside the explanation.
\<close>

theorem sentinel_exactly_when_nothing_triggers:
  "(\<not> explanation_triggered rnd w sw c l \<longrightarrow>
      generate_explanation f rnd w sw c l r = explanation_sentinel)
   \<and> (explanation_triggered rnd w sw c l \<longrightarrow>
      generate_explanation f rnd w sw c l r \<noteq> explanation_sentinel)
   \<and> (explanation_triggered rnd w sw c l
        \<and> (\<forall>x. CHR ''A'' \<notin> set (fmt_1f f x) \<and> CHR ''A'' \<notin> set (fmt_0f f x)
                \<and> CHR ''A'' \<notin> set (fmt_str f x)) \<longrightarrow>
      (\<forall>ps ss. generate_explanation f rnd w sw c l r \<noteq> ps @ explanation_sentinel @ ss))
   \<and> generate_explanation f rnd w sw c l r \<noteq> []
   \<and> (\<not> citation_triggered rnd w sw c l \<longrightarrow>
      get_rule_citations f rnd w sw c l = [citation_sentinel])
   \<and> (citation_triggered rnd w sw c l \<longrightarrow>
      citation_sentinel \<notin> set (get_rule_citations f rnd w sw c l))
   \<and> get_rule_citations f rnd w sw c l \<noteq> []"
proof (intro conjI impI)
  show "generate_explanation f rnd w sw c l r = explanation_sentinel"
    if "\<not> explanation_triggered rnd w sw c l"
    using that by (rule generate_explanation_quiet)
  show "generate_explanation f rnd w sw c l r \<noteq> explanation_sentinel"
    if trig: "explanation_triggered rnd w sw c l"
  proof
    assume eq: "generate_explanation f rnd w sw c l r = explanation_sentinel"
    obtain a b t where "generate_explanation f rnd w sw c l r = a # b # t"
      and ab: "(a, b) \<noteq> (CHR ''A'', CHR ''l'')"
      using generate_explanation_triggered [OF trig, of f r] by blast
    with eq have "explanation_sentinel = a # b # t" by simp
    then have "a = CHR ''A''" and "b = CHR ''l''"
      by (simp_all add: explanation_sentinel_def)
    with ab show False by simp
  qed
  show "\<forall>ps ss. generate_explanation f rnd w sw c l r \<noteq> ps @ explanation_sentinel @ ss"
    if "explanation_triggered rnd w sw c l
        \<and> (\<forall>x. CHR ''A'' \<notin> set (fmt_1f f x) \<and> CHR ''A'' \<notin> set (fmt_0f f x)
                \<and> CHR ''A'' \<notin> set (fmt_str f x))"
    using that sentinel_not_inside_explanation [of f rnd w sw c l r] by blast
  show "generate_explanation f rnd w sw c l r \<noteq> []"
  proof (cases "explanation_triggered rnd w sw c l")
    case True
    then show ?thesis using generate_explanation_triggered [of rnd w sw c l f r] by auto
  next
    case False
    then show ?thesis by (simp add: generate_explanation_quiet explanation_sentinel_def)
  qed
  show "get_rule_citations f rnd w sw c l = [citation_sentinel]"
    if "\<not> citation_triggered rnd w sw c l"
    using that by (rule get_rule_citations_quiet)
  show "citation_sentinel \<notin> set (get_rule_citations f rnd w sw c l)"
    if "citation_triggered rnd w sw c l"
    using that by (rule get_rule_citations_triggered)
  show "get_rule_citations f rnd w sw c l \<noteq> []"
    by (rule get_rule_citations_nonempty)
qed

lemma example_not_triggered:
  "\<not> explanation_triggered round_double calm_weather quiet_space_weather no_conjunction
       example_limits"
  "\<not> citation_triggered round_double calm_weather quiet_space_weather no_conjunction
       example_limits"
  "\<not> explanation_triggered round_double boundary_weather quiet_space_weather no_conjunction
       example_limits"
  unfolding explanation_triggered_def citation_triggered_def example_wind_threshold
    example_precipitation_threshold example_temperature_thresholds
  by (simp_all add: example_defs double_fractions)

lemma example_triggered:
  "explanation_triggered round_double windy_weather quiet_space_weather no_conjunction
     example_limits"
  "citation_triggered round_double windy_weather quiet_space_weather no_conjunction
     example_limits"
  unfolding explanation_triggered_def citation_triggered_def example_wind_threshold
  by (simp_all add: example_defs)

theorem sentinel_exactly_when_nothing_triggers_witness:
  "generate_explanation placeholder_format round_double calm_weather quiet_space_weather
     no_conjunction example_limits 0 = explanation_sentinel
   \<and> get_rule_citations placeholder_format round_double calm_weather quiet_space_weather
       no_conjunction example_limits = [citation_sentinel]
   \<and> generate_explanation placeholder_format round_double windy_weather quiet_space_weather
       no_conjunction example_limits 40 \<noteq> explanation_sentinel
   \<and> generate_explanation placeholder_format round_double windy_weather quiet_space_weather
       no_conjunction example_limits 40 \<noteq> ''Note: '' @ explanation_sentinel @ ''.''
   \<and> citation_sentinel \<notin> set (get_rule_citations placeholder_format round_double
       windy_weather quiet_space_weather no_conjunction example_limits)"
proof -
  have fmt: "\<forall>x. CHR ''A'' \<notin> set (fmt_1f placeholder_format x)
      \<and> CHR ''A'' \<notin> set (fmt_0f placeholder_format x)
      \<and> CHR ''A'' \<notin> set (fmt_str placeholder_format x)"
    by (simp add: placeholder_format_def)
  show ?thesis
    using example_not_triggered(1,2) example_triggered fmt
      sentinel_exactly_when_nothing_triggers
        [of round_double calm_weather quiet_space_weather no_conjunction example_limits
            placeholder_format 0]
      sentinel_exactly_when_nothing_triggers
        [of round_double windy_weather quiet_space_weather no_conjunction example_limits
            placeholder_format 40]
    by blast
qed

text \<open>
  C10. The explanation does not depend on the \<open>risk_score\<close> argument: for fixed weather,
  space weather, conjunction and limits, any two risk scores give the same string.
\<close>

theorem generate_explanation_ignores_risk_score:
  "generate_explanation f rnd w sw c l r1 = generate_explanation f rnd w sw c l r2"
  by (simp add: generate_explanation_def)

text \<open>
  C4, as stated, fails at the boundary, in double arithmetic. With 24 kn of wind against a
  limit of 30 kn the quotient is the double 0.8, the product \<open>30 * 0.8\<close> is the double 24,
  and no wind issue is reported; with 3.2 mm of precipitation against a limit of 6.4 mm
  the quotient is 0.5, the product \<open>6.4 * 0.5\<close> is the double 3.2, and no precipitation
  issue is reported. The explanation is the sentinel sentence.
\<close>

theorem explanation_threshold_counterexample:
  "round_double (wind_speed_kn boundary_weather / max_wind_kn example_limits)
     \<ge> round_double 0.8
   \<and> wind_speed_kn boundary_weather / max_wind_kn example_limits \<ge> 0.8
   \<and> wind_issue placeholder_format boundary_weather example_limits
       \<notin> set (explanation_issues placeholder_format round_double boundary_weather
                quiet_space_weather no_conjunction example_limits)
   \<and> round_double (precipitation_mm boundary_weather / max_precipitation_mm example_limits)
       \<ge> round_double 0.5
   \<and> precipitation_mm boundary_weather / max_precipitation_mm example_limits \<ge> 0.5
   \<and> precipitation_issue placeholder_format boundary_weather example_limits
       \<notin> set (explanation_issues placeholder_format round_double boundary_weather
                quiet_space_weather no_conjunction example_limits)
   \<and> generate_explanation placeholder_format round_double boundary_weather
       quiet_space_weather no_conjunction example_limits 20 = explanation_sentinel"
proof -
  have "wind_speed_kn boundary_weather / max_wind_kn example_limits \<ge> 0.8"
    by (simp add: boundary_weather_def example_limits_def)
  moreover have
    "precipitation_mm boundary_weather / max_precipitation_mm example_limits \<ge> 0.5"
    by (simp add: boundary_weather_def example_limits_def double_fractions)
  moreover have "explanation_issues placeholder_format round_double boundary_weather
      quiet_space_weather no_conjunction example_limits = []"
    using example_not_triggered(3) by (simp add: explanation_issues_Nil)
  moreover have "generate_explanation placeholder_format round_double boundary_weather
      quiet_space_weather no_conjunction example_limits 20 = explanation_sentinel"
    using example_not_triggered(3) by (rule generate_explanation_quiet)
  ultimately show ?thesis
    by (simp add: example_boundary_ratios)
qed

text \<open>
  C4, amended. The comparisons are strict, and they are made against the products, the
  difference and the sum as float arithmetic computes them. A wind issue is reported
  exactly when the wind speed exceeds \<open>max_wind_kn * 0.8\<close>; a precipitation issue exactly
  when the precipitation exceeds \<open>max_precipitation_mm * 0.5\<close>; the upper temperature
  issue exactly when the temperature is above \<open>max_temp_c - 5\<close>, the lower one exactly when
  it is below \<open>min_temp_c + 5\<close>; a cloud-ceiling issue exactly when the ceiling is below
  the site limit. The explanation returned is the sentinel when no issue is reported and
  otherwise the reported issues joined by ``; ''.
\<close>

theorem explanation_issue_thresholds:
  "(wind_issue f w l \<in> set (explanation_issues f rnd w sw c l)
      \<longleftrightarrow> wind_speed_kn w > rnd (max_wind_kn l * rnd 0.8))
   \<and> (precipitation_issue f w l \<in> set (explanation_issues f rnd w sw c l)
      \<longleftrightarrow> precipitation_mm w > rnd (max_precipitation_mm l * rnd 0.5))
   \<and> (upper_temperature_issue f w \<in> set (explanation_issues f rnd w sw c l)
      \<longleftrightarrow> temperature_c w > rnd (max_temp_c l - 5))
   \<and> (lower_temperature_issue f w \<in> set (explanation_issues f rnd w sw c l)
      \<longleftrightarrow> temperature_c w < rnd (min_temp_c l + 5))
   \<and> (cloud_ceiling_issue f w l \<in> set (explanation_issues f rnd w sw c l)
      \<longleftrightarrow> cloud_ceiling_ft w < max_cloud_ceiling_ft l)
   \<and> (explanation_issues f rnd w sw c l = [] \<longrightarrow>
        generate_explanation f rnd w sw c l r = explanation_sentinel)
   \<and> (explanation_issues f rnd w sw c l \<noteq> [] \<longrightarrow>
        generate_explanation f rnd w sw c l r
          = join ''; '' (explanation_issues f rnd w sw c l))"
  by (simp add: wind_issue_reported precipitation_issue_reported
      upper_temperature_issue_reported lower_temperature_issue_reported
      cloud_ceiling_issue_reported generate_explanation_def)

theorem explanation_issue_thresholds_witness:
  "wind_issue placeholder_format windy_weather example_limits
       \<in> set (explanation_issues placeholder_format round_double windy_weather
                quiet_space_weather no_conjunction example_limits)
   \<and> precipitation_issue placeholder_format windy_weather example_limits
       \<notin> set (explanation_issues placeholder_format round_double windy_weather
                quiet_space_weather no_conjunction example_limits)
   \<and> explanation_issues placeholder_format round_double windy_weather
        quiet_space_weather no_conjunction example_limits \<noteq> []
   \<and> generate_explanation placeholder_format round_double windy_weather
        quiet_space_weather no_conjunction example_limits 40
      = ''Wind speed #.# kn approaching limit # kn''"
proof -
  have "wind_speed_kn windy_weather
      > round_double (max_wind_kn example_limits * round_double 0.8)"
    unfolding example_wind_threshold by (simp add: windy_weather_def)
  moreover have "\<not> precipitation_mm windy_weather
      > round_double (max_precipitation_mm example_limits * round_double 0.5)"
    unfolding example_precipitation_threshold
    by (simp add: windy_weather_def double_fractions)
  moreover have "explanation_issues placeholder_format round_double windy_weather
      quiet_space_weather no_conjunction example_limits
      = [''Wind speed #.# kn approaching limit # kn'']"
    unfolding explanation_issues_concat example_wind_threshold
      example_precipitation_threshold example_temperature_thresholds
    by (simp add: example_defs wind_issue_def placeholder_format_def double_fractions)
  ultimately show ?thesis
    using explanation_issue_thresholds
      [of placeholder_format windy_weather example_limits round_double
          quiet_space_weather no_conjunction 40]
    by simp
qed

section \<open>Properties of the decision orchestrator\<close>

text \<open>
  C3. For a site code that is not in the registry, whatever the launch time, the result is
  the decision with verdict ERROR, risk score 100, the message ``Unknown launch site: ''
  followed by the code, no citations and no data; the log is empty, so none of the three
  data sources is called.
\<close>

theorem unknown_site_decision:
  assumes "LAUNCH_SITES env site_code = None"
  shows "make_decision f rnd env site_code launch_time =
    (Inr \<lparr>verdict = ''ERROR'', risk_score = 100,
          why = ''Unknown launch site: '' @ site_code,
          rule_citations = [], data = None\<rparr>, [])"
  using assms by (simp add: make_decision_def)

theorem unknown_site_decision_witness:
  "LAUNCH_SITES example_env ''XYZ'' = None
   \<and> make_decision placeholder_format round_double example_env ''XYZ'' 0 =
    (Inr \<lparr>verdict = ''ERROR'', risk_score = 100,
          why = ''Unknown launch site: XYZ'',
          rule_citations = [], data = None\<rparr>, [])"
proof -
  have h: "LAUNCH_SITES example_env ''XYZ'' = None"
    by (simp add: example_env_def)
  show ?thesis
    using h unknown_site_decision [OF h, of placeholder_format round_double 0] by simp
qed

lemma make_decision_known:
  assumes "LAUNCH_SITES env site_code = Some st"
    and "get_weather env (lat st) (lon st) t = Inr w"
    and "get_space_weather env () = Inr sw"
    and "get_conjunction_risk env (lat st) (lon st) t = Inr c"
  shows "make_decision f rnd env site_code t =
    (case calculate_risk_score rnd w sw c (limits st) of
       Inl e \<Rightarrow> (Inl e, sequential_trace)
     | Inr s \<Rightarrow>
        (Inr \<lparr>verdict = determine_verdict s, risk_score = s,
              why = generate_explanation f rnd w sw c (limits st) s,
              rule_citations = get_rule_citations f rnd w sw c (limits st),
              data = Some \<lparr>weather = w, space_weather = sw, conjunction = c\<rparr>\<rparr>,
         sequential_trace))"
  using assms by (simp add: make_decision_def Let_def sequential_trace_def split: sum.split)

lemma make_decision_returns:
  assumes "fst (make_decision f rnd env site_code t) = Inr d"
    and "LAUNCH_SITES env site_code = Some st"
  shows "\<exists>w sw c. get_weather env (lat st) (lon st) t = Inr w
      \<and> get_space_weather env () = Inr sw
      \<and> get_conjunction_risk env (lat st) (lon st) t = Inr c
      \<and> calculate_risk_score rnd w sw c (limits st) = Inr (risk_score d)
      \<and> verdict d = determine_verdict (risk_score d)
      \<and> why d = generate_explanation f rnd w sw c (limits st) (risk_score d)
      \<and> rule_citations d = get_rule_citations f rnd w sw c (limits st)
      \<and> data d = Some \<lparr>weather = w, space_weather = sw, conjunction = c\<rparr>
      \<and> snd (make_decision f rnd env site_code t) = sequential_trace"
  using assms
  by (auto simp: make_decision_def Let_def sequential_trace_def split: sum.splits)

lemma example_score:
  "calculate_risk_score round_double calm_weather quiet_space_weather no_conjunction
     example_limits = Inr 0"
proof -
  have "spec_band_sum round_double calm_weather quiet_space_weather no_conjunction
      example_limits = 0"
    unfolding spec_band_sum_def example_calm_ratios spec_wind_points_def
      spec_precip_points_def spec_temp_points_def example_temperature_thresholds
      double_literals
    by (simp add: spec_cloud_points_def spec_kp_points_def spec_storm_points_def
        spec_conjunction_points_def example_defs)
  then show ?thesis
    using example_limits_positive by (simp add: calculate_risk_score_bands)
qed

lemma example_decision:
  "make_decision placeholder_format round_double example_env ''KSC'' 0 =
     (Inr \<lparr>verdict = ''GO'', risk_score = 0, why = explanation_sentinel,
           rule_citations = [citation_sentinel],
           data = Some \<lparr>weather = calm_weather, space_weather = quiet_space_weather,
                        conjunction = no_conjunction\<rparr>\<rparr>,
      sequential_trace)"
proof -
  have "LAUNCH_SITES example_env ''KSC'' = Some ksc_site"
    by (simp add: example_env_def)
  with example_not_triggered(1,2) show ?thesis
    by (simp add: make_decision_known [where st = ksc_site and w = calm_weather
          and sw = quiet_space_weather and c = no_conjunction]
        example_env_def ksc_site_def example_score generate_explanation_quiet
        get_rule_citations_quiet determine_verdict_def)
qed


lemma not_fan_out_prefixes:
  "\<not> spec_fan_out_fan_in []"
  "\<not> spec_fan_out_fan_in [Issued Weather]"
  "\<not> spec_fan_out_fan_in [Issued Weather, Completed Weather, Issued SpaceWeather]"
  "\<not> spec_fan_out_fan_in [Issued Weather, Completed Weather, Issued SpaceWeather,
       Completed SpaceWeather, Issued Conjunction]"
  "\<not> spec_fan_out_fan_in sequential_trace"
  by (auto simp: spec_fan_out_fan_in_def sequential_trace_def)

lemma make_decision_trace_cases:
  "snd (make_decision f rnd env site_code t) \<in>
     {[], [Issued Weather], [Issued Weather, Completed Weather, Issued SpaceWeather],
      [Issued Weather, Completed Weather, Issued SpaceWeather, Completed SpaceWeather,
       Issued Conjunction], sequential_trace}"
  by (simp add: make_decision_def Let_def sequential_trace_def
      split: option.split sum.split)

text \<open>
  C7, as stated, fails for the unknown site: the ERROR decision has no data field.
\<close>

theorem error_decision_lacks_data:
  "fst (make_decision placeholder_format round_double example_env ''XYZ'' 0) =
      Inr \<lparr>verdict = ''ERROR'', risk_score = 100, why = ''Unknown launch site: XYZ'',
           rule_citations = [], data = None\<rparr>
   \<and> data \<lparr>verdict = ''ERROR'', risk_score = 100, why = ''Unknown launch site: XYZ'',
           rule_citations = [], data = None\<rparr> = None"
  by (simp add: make_decision_def example_env_def)

text \<open>
  C7, amended. Every decision returned for a known site carries the three fetched snapshots
  in its data field, next to the verdict, the risk score, the explanation and the citations
  computed from them. The ERROR decision for an unknown site carries verdict, risk score,
  message and an empty citation list, and no data field.
\<close>

theorem decision_contents:
  assumes "fst (make_decision f rnd env site_code t) = Inr d"
  shows "(LAUNCH_SITES env site_code = None \<longrightarrow>
            verdict d = ''ERROR'' \<and> risk_score d = 100
          \<and> why d = ''Unknown launch site: '' @ site_code
          \<and> rule_citations d = [] \<and> data d = None)
       \<and> (\<forall>st. LAUNCH_SITES env site_code = Some st \<longrightarrow>
            (\<exists>w sw c. get_weather env (lat st) (lon st) t = Inr w
               \<and> get_space_weather env () = Inr sw
               \<and> get_conjunction_risk env (lat st) (lon st) t = Inr c
               \<and> calculate_risk_score rnd w sw c (limits st) = Inr (risk_score d)
               \<and> verdict d = determine_verdict (risk_score d)
               \<and> why d = generate_explanation f rnd w sw c (limits st) (risk_score d)
               \<and> rule_citations d = get_rule_citations f rnd w sw c (limits st)
               \<and> data d = Some \<lparr>weather = w, space_weather = sw, conjunction = c\<rparr>))"
proof (rule conjI)
  show "LAUNCH_SITES env site_code = None \<longrightarrow>
      verdict d = ''ERROR'' \<and> risk_score d = 100
      \<and> why d = ''Unknown launch site: '' @ site_code
      \<and> rule_citations d = [] \<and> data d = None"
  proof
    assume "LAUNCH_SITES env site_code = None"
    with assms have "d = \<lparr>verdict = ''ERROR'', risk_score = 100,
        why = ''Unknown launch site: '' @ site_code, rule_citations = [], data = None\<rparr>"
      by (simp add: make_decision_def)
    then show "verdict d = ''ERROR'' \<and> risk_score d = 100
        \<and> why d = ''Unknown launch site: '' @ site_code
        \<and> rule_citations d = [] \<and> data d = None"
      by simp
  qed
  show "\<forall>st. LAUNCH_SITES env site_code = Some st \<longrightarrow>
      (\<exists>w sw c. get_weather env (lat st) (lon st) t = Inr w
         \<and> get_space_weather env () = Inr sw
         \<and> get_conjunction_risk env (lat st) (lon st) t = Inr c
         \<and> calculate_risk_score rnd w sw c (limits st) = Inr (risk_score d)
         \<and> verdict d = determine_verdict (risk_score d)
         \<and> why d = generate_explanation f rnd w sw c (limits st) (risk_score d)
         \<and> rule_citations d = get_rule_citations f rnd w sw c (limits st)
         \<and> data d = Some \<lparr>weather = w, space_weather = sw, conjunction = c\<rparr>)"
    using make_decision_returns [OF assms] by blast
qed

theorem decision_contents_witness:
  "fst (make_decision placeholder_format round_double example_env ''KSC'' 0) =
      Inr \<lparr>verdict = ''GO'', risk_score = 0, why = explanation_sentinel,
           rule_citations = [citation_sentinel],
           data = Some \<lparr>weather = calm_weather, space_weather = quiet_space_weather,
                        conjunction = no_conjunction\<rparr>\<rparr>
   \<and> LAUNCH_SITES example_env ''KSC'' = Some ksc_site
   \<and> get_weather example_env (lat ksc_site) (lon ksc_site) 0 = Inr calm_weather
   \<and> calculate_risk_score round_double calm_weather quiet_space_weather no_conjunction
        (limits ksc_site) = Inr 0"
proof -
  have h: "fst (make_decision placeholder_format round_double example_env ''KSC'' 0) =
      Inr \<lparr>verdict = ''GO'', risk_score = 0, why = explanation_sentinel,
           rule_citations = [citation_sentinel],
           data = Some \<lparr>weather = calm_weather, space_weather = quiet_space_weather,
                        conjunction = no_conjunction\<rparr>\<rparr>"
    by (simp add: example_decision)
  show ?thesis
    using h decision_contents [OF h]
    by (simp add: example_env_def ksc_site_def example_score)
qed

text \<open>
  C9, as stated, fails. At a known site whose sources all answer, each source is joined
  before the next one is called, which is not a fan-out; and when the weather source
  raises, the other two sources are never called.
\<close>

theorem fetches_not_concurrent_counterexample:
  "LAUNCH_SITES example_env ''KSC'' = Some ksc_site
   \<and> snd (make_decision placeholder_format round_double example_env ''KSC'' 0) =
       [Issued Weather, Completed Weather, Issued SpaceWeather, Completed SpaceWeather,
        Issued Conjunction, Completed Conjunction]
   \<and> \<not> spec_fan_out_fan_in (snd (make_decision placeholder_format round_double example_env ''KSC'' 0))
   \<and> LAUNCH_SITES failing_weather_env ''KSC'' = Some ksc_site
   \<and> snd (make_decision placeholder_format round_double failing_weather_env ''KSC'' 0) = [Issued Weather]"
proof -
  have "snd (make_decision placeholder_format round_double failing_weather_env ''KSC'' 0) = [Issued Weather]"
    by (simp add: make_decision_def failing_weather_env_def example_env_def)
  moreover have "snd (make_decision placeholder_format round_double example_env ''KSC'' 0)
      = sequential_trace"
    by (simp add: example_decision)
  ultimately show ?thesis
    using not_fan_out_prefixes(5)
    by (simp add: failing_weather_env_def example_env_def sequential_trace_def)
qed

text \<open>
  C9, amended. For every known site the three sources are awaited one after the other, in
  the order weather, space weather, conjunction: a source is called only after the one
  before it has returned, an exception of a source ends the decision before the later
  sources are called, all three have returned before the score is computed, and the log is
  never a fan-out.
\<close>

theorem fetches_are_sequential:
  assumes "LAUNCH_SITES env site_code = Some st"
  shows "(\<forall>e. get_weather env (lat st) (lon st) t = Inl e \<longrightarrow>
            make_decision f rnd env site_code t = (Inl e, [Issued Weather]))
       \<and> (\<forall>w e. get_weather env (lat st) (lon st) t = Inr w
              \<and> get_space_weather env () = Inl e \<longrightarrow>
            make_decision f rnd env site_code t =
              (Inl e, [Issued Weather, Completed Weather, Issued SpaceWeather]))
       \<and> (\<forall>w sw e. get_weather env (lat st) (lon st) t = Inr w
              \<and> get_space_weather env () = Inr sw
              \<and> get_conjunction_risk env (lat st) (lon st) t = Inl e \<longrightarrow>
            make_decision f rnd env site_code t =
              (Inl e, [Issued Weather, Completed Weather, Issued SpaceWeather,
                       Completed SpaceWeather, Issued Conjunction]))
       \<and> (\<forall>w sw c. get_weather env (lat st) (lon st) t = Inr w
              \<and> get_space_weather env () = Inr sw
              \<and> get_conjunction_risk env (lat st) (lon st) t = Inr c \<longrightarrow>
            snd (make_decision f rnd env site_code t) =
              [Issued Weather, Completed Weather, Issued SpaceWeather,
               Completed SpaceWeather, Issued Conjunction, Completed Conjunction])
       \<and> (\<forall>d. fst (make_decision f rnd env site_code t) = Inr d \<longrightarrow>
            snd (make_decision f rnd env site_code t) =
              [Issued Weather, Completed Weather, Issued SpaceWeather,
               Completed SpaceWeather, Issued Conjunction, Completed Conjunction])
       \<and> \<not> spec_fan_out_fan_in (snd (make_decision f rnd env site_code t))"
proof (intro conjI allI impI)
  fix e assume "get_weather env (lat st) (lon st) t = Inl e"
  then show "make_decision f rnd env site_code t = (Inl e, [Issued Weather])"
    using assms by (simp add: make_decision_def)
next
  fix w e
  assume "get_weather env (lat st) (lon st) t = Inr w \<and> get_space_weather env () = Inl e"
  then show "make_decision f rnd env site_code t =
      (Inl e, [Issued Weather, Completed Weather, Issued SpaceWeather])"
    using assms by (simp add: make_decision_def)
next
  fix w sw e
  assume "get_weather env (lat st) (lon st) t = Inr w
      \<and> get_space_weather env () = Inr sw
      \<and> get_conjunction_risk env (lat st) (lon st) t = Inl e"
  then show "make_decision f rnd env site_code t =
      (Inl e, [Issued Weather, Completed Weather, Issued SpaceWeather,
               Completed SpaceWeather, Issued Conjunction])"
    using assms by (simp add: make_decision_def)
next
  fix w sw c
  assume "get_weather env (lat st) (lon st) t = Inr w
      \<and> get_space_weather env () = Inr sw
      \<and> get_conjunction_risk env (lat st) (lon st) t = Inr c"
  then show "snd (make_decision f rnd env site_code t) =
      [Issued Weather, Completed Weather, Issued SpaceWeather,
       Completed SpaceWeather, Issued Conjunction, Completed Conjunction]"
    using assms
    by (simp add: make_decision_known [where st = st and w = w and sw = sw and c = c]
        sequential_trace_def split: sum.split)
next
  fix d assume "fst (make_decision f rnd env site_code t) = Inr d"
  from make_decision_returns [OF this assms]
  show "snd (make_decision f rnd env site_code t) =
      [Issued Weather, Completed Weather, Issued SpaceWeather,
       Completed SpaceWeather, Issued Conjunction, Completed Conjunction]"
    by (auto simp: sequential_trace_def)
next
  show "\<not> spec_fan_out_fan_in (snd (make_decision f rnd env site_code t))"
    using make_decision_trace_cases [of f rnd env site_code t] not_fan_out_prefixes
    by auto
qed

theorem fetches_are_sequential_witness:
  "LAUNCH_SITES example_env ''KSC'' = Some ksc_site
   \<and> snd (make_decision placeholder_format round_double example_env ''KSC'' 0) =
       [Issued Weather, Completed Weather, Issued SpaceWeather, Completed SpaceWeather,
        Issued Conjunction, Completed Conjunction]
   \<and> make_decision placeholder_format round_double failing_weather_env ''KSC'' 0 =
       (Inl FetchFailure, [Issued Weather])"
proof -
  have h: "LAUNCH_SITES example_env ''KSC'' = Some ksc_site"
    by (simp add: example_env_def)
  have h': "LAUNCH_SITES failing_weather_env ''KSC'' = Some ksc_site"
    by (simp add: failing_weather_env_def example_env_def)
  show ?thesis
    using h fetches_are_sequential [OF h, of 0 placeholder_format round_double]
      fetches_are_sequential [OF h', of 0 placeholder_format round_double]
    by (simp add: failing_weather_env_def example_env_def)
qed

section \<open>The model at rounding boundaries\<close>

text \<open>
  Inputs at which double arithmetic and exact arithmetic part ways. The exact quotient of
  the double 6.6 by 11 is below the double 0.6, the rounded quotient equals it, and the
  scorer adds the 10 points of the third wind band.
\<close>

lemma rounded_quotient_enters_band:
  "round_double 6.6 / 11 < round_double 0.6"
  "round_double (round_double 6.6 / 11) = round_double 0.6"
  "calculate_risk_score round_double (calm_weather\<lparr>wind_speed_kn := round_double 6.6\<rparr>)
     quiet_space_weather no_conjunction (example_limits\<lparr>max_wind_kn := 11\<rparr>) = Inr 10"
proof -
  have d: "round_double 6.6 = 3715469692580659 / 562949953421312"
    using round_double_binade [of 2 "6.6"]
    by (simp add: powr_neg_numeral round_half_even_def)
  show "round_double 6.6 / 11 < round_double 0.6"
    unfolding d double_literals by simp
  show q: "round_double (round_double 6.6 / 11) = round_double 0.6"
    unfolding d double_literals
    using round_double_binade [of "-1" "3715469692580659 / 562949953421312 / 11"]
    by (simp add: powr_neg_numeral round_half_even_def)
  have "spec_band_sum round_double (calm_weather\<lparr>wind_speed_kn := round_double 6.6\<rparr>)
      quiet_space_weather no_conjunction (example_limits\<lparr>max_wind_kn := 11\<rparr>) = 10"
    using q example_calm_ratios(2) example_temperature_thresholds
    by (simp add: spec_band_sum_def spec_wind_points_def spec_precip_points_def
        spec_temp_points_def spec_cloud_points_def spec_kp_points_def
        spec_storm_points_def spec_conjunction_points_def example_defs double_fractions)
  then show "calculate_risk_score round_double
      (calm_weather\<lparr>wind_speed_kn := round_double 6.6\<rparr>)
      quiet_space_weather no_conjunction (example_limits\<lparr>max_wind_kn := 11\<rparr>) = Inr 10"
    using example_limits_positive(2)
    by (simp add: calculate_risk_score_bands example_limits_def)
qed

text \<open>
  With the doubles 29.44 and 36.8 the rounded quotient is the double 0.8 and the rounded
  product \<open>36.8 * 0.8\<close> is below 29.44, so the wind issue is reported. With the double 7.2
  and 9 the exact product of 9 and four fifths is below 7.2, the rounded product
  \<open>9 * 0.8\<close> equals it, and no wind issue is reported.
\<close>

lemma rounded_product_decides_issue:
  "round_double (round_double 29.44 / round_double 36.8) = round_double 0.8"
  "wind_issue f (w\<lparr>wind_speed_kn := round_double 29.44\<rparr>)
       (l\<lparr>max_wind_kn := round_double 36.8\<rparr>)
     \<in> set (explanation_issues f round_double (w\<lparr>wind_speed_kn := round_double 29.44\<rparr>)
              sw c (l\<lparr>max_wind_kn := round_double 36.8\<rparr>))"
  "9 * (4 / 5) < round_double 7.2"
  "wind_issue f (w\<lparr>wind_speed_kn := round_double 7.2\<rparr>) (l\<lparr>max_wind_kn := 9\<rparr>)
     \<notin> set (explanation_issues f round_double (w\<lparr>wind_speed_kn := round_double 7.2\<rparr>)
              sw c (l\<lparr>max_wind_kn := 9\<rparr>))"
proof -
  have a: "round_double 29.44 = 8286623314361713 / 281474976710656"
    using round_double_binade [of 4 "29.44"]
    by (simp add: powr_neg_numeral round_half_even_def)
  have b: "round_double 36.8 = 2589569785738035 / 70368744177664"
    using round_double_binade [of 5 "36.8"]
    by (simp add: powr_neg_numeral round_half_even_def)
  have d: "round_double 7.2 = 8106479329266893 / 1125899906842624"
    using round_double_binade [of 2 "7.2"]
    by (simp add: powr_neg_numeral round_half_even_def)
  have p: "round_double (round_double 36.8 * round_double 0.8)
      = 517913957147607 / 17592186044416"
    unfolding b double_literals
    using round_double_binade [of 4
        "2589569785738035 / 70368744177664 * (3602879701896397 / 4503599627370496)"]
    by (simp add: powr_neg_numeral round_half_even_def)
  have p': "round_double (9 * round_double 0.8) = round_double 7.2"
    unfolding d double_literals
    using round_double_binade [of 2 "9 * (3602879701896397 / 4503599627370496)"]
    by (simp add: powr_neg_numeral round_half_even_def)
  have reported: "wind_issue f (w\<lparr>wind_speed_kn := x\<rparr>) (l\<lparr>max_wind_kn := y\<rparr>)
      \<in> set (explanation_issues f round_double (w\<lparr>wind_speed_kn := x\<rparr>) sw c
               (l\<lparr>max_wind_kn := y\<rparr>))
      \<longleftrightarrow> x > round_double (y * round_double 0.8)" for x y
    unfolding wind_issue_reported by simp
  show "round_double (round_double 29.44 / round_double 36.8) = round_double 0.8"
    unfolding a b double_literals
    using round_double_binade [of "-1"
        "8286623314361713 / 281474976710656 / (2589569785738035 / 70368744177664)"]
    by (simp add: powr_neg_numeral round_half_even_def)
  show "wind_issue f (w\<lparr>wind_speed_kn := round_double 29.44\<rparr>)
       (l\<lparr>max_wind_kn := round_double 36.8\<rparr>)
     \<in> set (explanation_issues f round_double (w\<lparr>wind_speed_kn := round_double 29.44\<rparr>)
              sw c (l\<lparr>max_wind_kn := round_double 36.8\<rparr>))"
    unfolding reported p a by simp
  show "9 * (4 / 5) < round_double 7.2"
    unfolding d by simp
  show "wind_issue f (w\<lparr>wind_speed_kn := round_double 7.2\<rparr>) (l\<lparr>max_wind_kn := 9\<rparr>)
     \<notin> set (explanation_issues f round_double (w\<lparr>wind_speed_kn := round_double 7.2\<rparr>)
              sw c (l\<lparr>max_wind_kn := 9\<rparr>))"
    unfolding reported p' by simp
qed

end
